theory Spec2Isabelle
  imports Complex_Main "HOL-Library.Log_Nat"
begin

section \<open>Python values and the operations the harvester uses on them\<close>

text \<open>
  The harvester works on decoded JSON: what \<^verbatim>\<open>r.json()\<close> and \<^verbatim>\<open>json.loads\<close> return.
  A dict is the list of its items, keys distinct, looked up with \<open>map_of\<close>; a float is
  the rational it denotes (JSON has no NaN and no infinity); a string is the list of the
  bytes of its UTF-8 encoding, so that byte-wise lexicographic order is the order of the
  code points that Python compares.
\<close>

datatype json =
    JNull
  | JBool bool
  | JInt int
  | JFloat rat
  | JStr string
  | JArr "json list"
  | JObj "(string \<times> json) list"

text \<open>Every exception the code can meet is an \<^verbatim>\<open>Exception\<close>; the handlers of the source
  are all \<^verbatim>\<open>except Exception\<close> (or print-only refinements of it).\<close>

datatype exn =
    TypeError
  | AttributeError
  | KeyError
  | IndexError
  | ValueError
  | HTTPError nat
  | ConnectionError

definition ebind :: "exn + 'a \<Rightarrow> ('a \<Rightarrow> exn + 'b) \<Rightarrow> exn + 'b" where
  "ebind m f = (case m of Inl e \<Rightarrow> Inl e | Inr v \<Rightarrow> f v)"

text \<open>Truth value testing: \<^verbatim>\<open>if x\<close>, \<^verbatim>\<open>not x\<close>, \<^verbatim>\<open>x or y\<close>, \<^verbatim>\<open>bool(x)\<close>.\<close>

fun truthy :: "json \<Rightarrow> bool" where
  "truthy JNull = False"
| "truthy (JBool b) = b"
| "truthy (JInt i) = (i \<noteq> 0)"
| "truthy (JFloat r) = (r \<noteq> 0)"
| "truthy (JStr s) = (s \<noteq> [])"
| "truthy (JArr xs) = (xs \<noteq> [])"
| "truthy (JObj kvs) = (kvs \<noteq> [])"

definition py_or :: "json \<Rightarrow> json \<Rightarrow> json" where
  "py_or a b = (if truthy a then a else b)"

fun is_dict :: "json \<Rightarrow> bool" where
  "is_dict (JObj kvs) = True"
| "is_dict _ = False"

fun is_str :: "json \<Rightarrow> bool" where
  "is_str (JStr s) = True"
| "is_str _ = False"

text \<open>\<^verbatim>\<open>d.get(k, default)\<close>: only a dict has the method.\<close>

fun py_get :: "json \<Rightarrow> string \<Rightarrow> json \<Rightarrow> exn + json" where
  "py_get (JObj kvs) k dflt = Inr (case map_of kvs k of Some v \<Rightarrow> v | None \<Rightarrow> dflt)"
| "py_get _ k dflt = Inl AttributeError"

text \<open>\<^verbatim>\<open>d.get(k)\<close>, whose default is \<^verbatim>\<open>None\<close>.\<close>

definition py_get0 :: "json \<Rightarrow> string \<Rightarrow> exn + json" where
  "py_get0 d k = py_get d k JNull"

subsection \<open>Strings\<close>

text \<open>
  \<^verbatim>\<open>str.isspace\<close> holds of U+0009..U+000D, U+001C..U+0020, U+0085, U+00A0, U+1680,
  U+2000..U+200A, U+2028, U+2029, U+202F, U+205F and U+3000. \<open>ws_lead\<close> is the number of
  bytes of the white-space code point a string starts with (0 when it starts with none),
  \<open>ws_trail\<close> the same for the reversed string.
\<close>

definition ascii_space :: "char \<Rightarrow> bool" where
  "ascii_space c = ((9::nat) \<le> of_char c \<and> (of_char c::nat) \<le> 13
     \<or> (28::nat) \<le> of_char c \<and> (of_char c::nat) \<le> 32)"

fun ws_lead :: "string \<Rightarrow> nat" where
  "ws_lead (a # b # c # s) =
     (let x = (of_char a::nat); y = (of_char b::nat); z = (of_char c::nat) in
      if ascii_space a then 1
      else if x = 194 \<and> (y = 133 \<or> y = 160) then 2
      else if x = 225 \<and> y = 154 \<and> z = 128 then 3
      else if x = 226 \<and> y = 128 \<and> (128 \<le> z \<and> z \<le> 138 \<or> z = 168 \<or> z = 169 \<or> z = 175) then 3
      else if x = 226 \<and> y = 129 \<and> z = 159 then 3
      else if x = 227 \<and> y = 128 \<and> z = 128 then 3
      else 0)"
| "ws_lead [a, b] =
     (let x = (of_char a::nat); y = (of_char b::nat) in
      if ascii_space a then 1
      else if x = 194 \<and> (y = 133 \<or> y = 160) then 2
      else 0)"
| "ws_lead [a] = (if ascii_space a then 1 else 0)"
| "ws_lead [] = 0"

definition ws_trail :: "string \<Rightarrow> nat" where
  "ws_trail r =
     (case r of
        c # b # a # s \<Rightarrow>
          (if ascii_space c then 1
           else if ws_lead [b, c] = 2 then 2
           else if ws_lead [a, b, c] = 3 then 3
           else 0)
      | [c, b] \<Rightarrow> (if ascii_space c then 1 else if ws_lead [b, c] = 2 then 2 else 0)
      | [c] \<Rightarrow> (if ascii_space c then 1 else 0)
      | [] \<Rightarrow> 0)"

lemma ws_lead_le: "ws_lead s \<le> length s"
  by (cases s rule: ws_lead.cases) (simp_all add: Let_def)

lemma ws_trail_le: "ws_trail r \<le> length r"
  by (simp add: ws_trail_def split: list.splits)

function lstrip :: "string \<Rightarrow> string" where
  "lstrip s = (if ws_lead s = 0 then s else lstrip (drop (ws_lead s) s))"
  by pat_completeness auto
termination
proof (relation "measure length")
  fix s :: string
  assume "ws_lead s \<noteq> 0"
  with ws_lead_le [of s] show "(drop (ws_lead s) s, s) \<in> measure length"
    by simp
qed simp

function rstrip_rev :: "string \<Rightarrow> string" where
  "rstrip_rev r = (if ws_trail r = 0 then r else rstrip_rev (drop (ws_trail r) r))"
  by pat_completeness auto
termination
proof (relation "measure length")
  fix r :: string
  assume "ws_trail r \<noteq> 0"
  with ws_trail_le [of r] show "(drop (ws_trail r) r, r) \<in> measure length"
    by simp
qed simp

text \<open>\<^verbatim>\<open>s.strip()\<close>\<close>

definition py_strip :: "string \<Rightarrow> string" where
  "py_strip s = rev (rstrip_rev (rev (lstrip s)))"

text \<open>
  \<^verbatim>\<open>s.lower()\<close> on the ASCII letters. Outside ASCII the only code point whose lower-case
  form is an ASCII letter alone is U+212A (KELVIN SIGN, to \<^verbatim>\<open>k\<close>); the strings the code
  compares a lowered string with contain no \<^verbatim>\<open>k\<close>, so that the comparisons come out as
  in Python.
\<close>

definition lower_char :: "char \<Rightarrow> char" where
  "lower_char c = (if (65::nat) \<le> of_char c \<and> (of_char c::nat) \<le> 90
                   then char_of (of_char c + (32::nat)) else c)"

definition py_lower :: "string \<Rightarrow> string" where
  "py_lower s = map lower_char s"

section \<open>bot\_detect.py\<close>

text \<open>
  \<^verbatim>\<open>detect_bot_close(issue)\<close>. The \<^verbatim>\<open>isinstance\<close> tests are written as tests; the
  method calls behind them are the general ones, which raise on a value of another type.
\<close>

definition str_strip :: "json \<Rightarrow> exn + json" where
  "str_strip v = (case v of JStr s \<Rightarrow> Inr (JStr (py_strip s)) | _ \<Rightarrow> Inl AttributeError)"

definition str_lower :: "json \<Rightarrow> exn + json" where
  "str_lower v = (case v of JStr s \<Rightarrow> Inr (JStr (py_lower s)) | _ \<Rightarrow> Inl AttributeError)"

definition detect_bot_close :: "json \<Rightarrow> exn + bool" where
  "detect_bot_close issue =
     (if \<not> is_dict issue then Inr False
      else ebind (py_get0 issue ''closed_by'') (\<lambda>closed_by.
        if \<not> is_dict closed_by then Inr False
        else ebind (py_get0 closed_by ''username'') (\<lambda>u1.
             ebind (if truthy u1 then Inr u1 else py_get0 closed_by ''login'') (\<lambda>uname.
               if \<not> is_str uname then Inr False
               else ebind (str_strip uname) (\<lambda>stripped.
                    ebind (str_lower stripped) (\<lambda>uname'.
                      Inr (uname' \<in> {JStr ''stale[bot]'', JStr ''vue-bot''})))))))"

text \<open>
  What the documentation of the function describes: the name tested is \<^verbatim>\<open>username\<close>,
  and \<^verbatim>\<open>login\<close> only when \<^verbatim>\<open>username\<close> is absent.
\<close>

definition bot_name :: "json \<Rightarrow> bool" where
  "bot_name v =
     (case v of
        JStr s \<Rightarrow> py_lower (py_strip s) \<in> {''stale[bot]'', ''vue-bot''}
      | _ \<Rightarrow> False)"

definition claimed_bot_close :: "json \<Rightarrow> bool" where
  "claimed_bot_close issue =
     (case issue of
        JObj kvs \<Rightarrow>
          (case map_of kvs ''closed_by'' of
             Some (JObj cb) \<Rightarrow>
               (case map_of cb ''username'' of
                  Some u \<Rightarrow> bot_name u
                | None \<Rightarrow> (case map_of cb ''login'' of Some l \<Rightarrow> bot_name l | None \<Rightarrow> False))
           | _ \<Rightarrow> False)
      | _ \<Rightarrow> False)"

text \<open>
  What the code tests: \<^verbatim>\<open>closed_by.get("username") or closed_by.get("login")\<close> is
  \<^verbatim>\<open>username\<close> when that is present and true, otherwise \<^verbatim>\<open>login\<close> (\<^verbatim>\<open>None\<close> when
  there is none).
\<close>

definition name_used :: "(string \<times> json) list \<Rightarrow> json" where
  "name_used cb =
     (case map_of cb ''username'' of
        Some u \<Rightarrow>
          if truthy u then u else (case map_of cb ''login'' of Some l \<Rightarrow> l | None \<Rightarrow> JNull)
      | None \<Rightarrow> (case map_of cb ''login'' of Some l \<Rightarrow> l | None \<Rightarrow> JNull))"

definition is_bot_close :: "json \<Rightarrow> bool" where
  "is_bot_close issue =
     (\<exists>kvs cb s. issue = JObj kvs \<and> map_of kvs ''closed_by'' = Some (JObj cb)
        \<and> name_used cb = JStr s \<and> py_lower (py_strip s) \<in> {''stale[bot]'', ''vue-bot''})"

section \<open>Comparison, \<^verbatim>\<open>min\<close>, \<^verbatim>\<open>max\<close> and \<^verbatim>\<open>sorted\<close>\<close>

text \<open>The number a value compares as: \<^verbatim>\<open>True == 1\<close> and \<^verbatim>\<open>1 == 1.0\<close> in Python.\<close>

fun num_val :: "json \<Rightarrow> rat option" where
  "num_val (JBool b) = Some (if b then 1 else 0)"
| "num_val (JInt i) = Some (of_int i)"
| "num_val (JFloat r) = Some r"
| "num_val _ = None"

lemma map_of_size [termination_simp]:
  "map_of kvs k = Some v \<Longrightarrow> size v < Suc (size_list (\<lambda>x. Suc (size (snd x))) kvs)"
  by (induction kvs) (auto split: if_splits)

text \<open>\<^verbatim>\<open>x == y\<close>; \<^verbatim>\<open>x != y\<close> is its negation. Two dicts are equal when they have the same
  keys with equal values, in any order.\<close>

fun py_eq :: "json \<Rightarrow> json \<Rightarrow> bool" where
  "py_eq JNull y = (y = JNull)"
| "py_eq (JStr s) y = (y = JStr s)"
| "py_eq (JBool b) y = (num_val y = Some (if b then 1 else 0))"
| "py_eq (JInt i) y = (num_val y = Some (of_int i))"
| "py_eq (JFloat r) y = (num_val y = Some r)"
| "py_eq (JArr xs) y = (case y of JArr ys \<Rightarrow> list_all2 py_eq xs ys | _ \<Rightarrow> False)"
| "py_eq (JObj kvs) y =
     (case y of
        JObj kws \<Rightarrow>
          list_all (\<lambda>k. map_of kvs k \<noteq> None) (map fst kws) \<and>
          list_all (\<lambda>k. case map_of kvs k of
                          Some v \<Rightarrow> (case map_of kws k of Some w \<Rightarrow> py_eq v w | None \<Rightarrow> False)
                        | None \<Rightarrow> False) (map fst kvs)
      | _ \<Rightarrow> False)"

text \<open>Strings compare by code point, which on UTF-8 is byte by byte.\<close>

fun str_lt :: "string \<Rightarrow> string \<Rightarrow> bool" where
  "str_lt [] [] = False"
| "str_lt [] (y # ys) = True"
| "str_lt (x # xs) [] = False"
| "str_lt (x # xs) (y # ys) = (if x = y then str_lt xs ys else (of_char x :: nat) < of_char y)"

text \<open>
  \<^verbatim>\<open>x < y\<close>: defined between two strings, two numbers and two lists (at the first
  position where they differ); everything else, \<^verbatim>\<open>None\<close> and dicts included, is a
  \<^verbatim>\<open>TypeError\<close>. \<^verbatim>\<open>x > y\<close> is \<^verbatim>\<open>y < x\<close> on these types.
\<close>

fun py_lt :: "json \<Rightarrow> json \<Rightarrow> exn + bool"
  and py_lt_list :: "json list \<Rightarrow> json list \<Rightarrow> exn + bool" where
  "py_lt (JStr a) (JStr b) = Inr (str_lt a b)"
| "py_lt (JArr xs) (JArr ys) = py_lt_list xs ys"
| "py_lt a b =
     (case num_val a of
        Some x \<Rightarrow> (case num_val b of Some y \<Rightarrow> Inr (x < y) | None \<Rightarrow> Inl TypeError)
      | None \<Rightarrow> Inl TypeError)"
| "py_lt_list [] [] = Inr False"
| "py_lt_list [] (y # ys) = Inr True"
| "py_lt_list (x # xs) [] = Inr False"
| "py_lt_list (x # xs) (y # ys) = (if py_eq x y then py_lt_list xs ys else py_lt x y)"

text \<open>A list comprehension \<^verbatim>\<open>[x for x in xs if p(x)]\<close> whose test may raise.\<close>

fun filter_e :: "('a \<Rightarrow> exn + bool) \<Rightarrow> 'a list \<Rightarrow> exn + 'a list" where
  "filter_e p [] = Inr []"
| "filter_e p (x # xs) =
     ebind (p x) (\<lambda>b. ebind (filter_e p xs) (\<lambda>ys. Inr (if b then x # ys else ys)))"

text \<open>\<^verbatim>\<open>[f(x) for x in xs]\<close>\<close>

fun map_e :: "('a \<Rightarrow> exn + 'b) \<Rightarrow> 'a list \<Rightarrow> exn + 'b list" where
  "map_e f [] = Inr []"
| "map_e f (x # xs) = ebind (f x) (\<lambda>y. ebind (map_e f xs) (\<lambda>ys. Inr (y # ys)))"

text \<open>
  \<^verbatim>\<open>min(xs, key=f)\<close> keeps the first item and replaces it by a later one whose key is
  smaller (\<^verbatim>\<open><\<close>); \<^verbatim>\<open>max(xs, key=f)\<close> replaces it by a later one whose key is greater
  (\<^verbatim>\<open>>\<close>). Both raise \<^verbatim>\<open>ValueError\<close> on an empty list, and what a key or a comparison
  raises.
\<close>

fun min_loop :: "(json \<Rightarrow> exn + json) \<Rightarrow> json \<Rightarrow> json \<Rightarrow> json list \<Rightarrow> exn + json" where
  "min_loop key best bk [] = Inr best"
| "min_loop key best bk (x # xs) =
     ebind (key x) (\<lambda>k. ebind (py_lt k bk) (\<lambda>lt.
       if lt then min_loop key x k xs else min_loop key best bk xs))"

definition py_min :: "(json \<Rightarrow> exn + json) \<Rightarrow> json list \<Rightarrow> exn + json" where
  "py_min key xs =
     (case xs of [] \<Rightarrow> Inl ValueError | x # rest \<Rightarrow> ebind (key x) (\<lambda>k. min_loop key x k rest))"

fun max_loop :: "(json \<Rightarrow> exn + json) \<Rightarrow> json \<Rightarrow> json \<Rightarrow> json list \<Rightarrow> exn + json" where
  "max_loop key best bk [] = Inr best"
| "max_loop key best bk (x # xs) =
     ebind (key x) (\<lambda>k. ebind (py_lt bk k) (\<lambda>gt.
       if gt then max_loop key x k xs else max_loop key best bk xs))"

definition py_max :: "(json \<Rightarrow> exn + json) \<Rightarrow> json list \<Rightarrow> exn + json" where
  "py_max key xs =
     (case xs of [] \<Rightarrow> Inl ValueError | x # rest \<Rightarrow> ebind (key x) (\<lambda>k. max_loop key x k rest))"

text \<open>
  \<^verbatim>\<open>sorted(xs, key=f, reverse=True)\<close> computes every key, then sorts in descending order
  of the keys, items with equal keys staying in their order. It is modelled as the
  insertion, from the right, of each item before the first item whose key is not
  greater. On keys that all compare (strings, or numbers) this is the one stable
  descending order; on two or more keys of which one compares with no other
  (\<^verbatim>\<open>None\<close>, a dict, a string among numbers) every sort makes a comparison that raises
  \<^verbatim>\<open>TypeError\<close>. Only when the keys are lists of which some pairs compare and others
  do not does the outcome depend on the comparisons CPython chooses to make; such keys
  are outside this model.
\<close>

fun insert_desc :: "json \<times> json \<Rightarrow> (json \<times> json) list \<Rightarrow> exn + (json \<times> json) list" where
  "insert_desc kx [] = Inr [kx]"
| "insert_desc kx (ky # r) =
     ebind (py_lt (fst kx) (fst ky)) (\<lambda>lt.
       if lt then ebind (insert_desc kx r) (\<lambda>r'. Inr (ky # r')) else Inr (kx # ky # r))"

fun sort_desc :: "(json \<times> json) list \<Rightarrow> exn + (json \<times> json) list" where
  "sort_desc [] = Inr []"
| "sort_desc (kx # r) = ebind (sort_desc r) (insert_desc kx)"

definition py_sorted_rev :: "(json \<Rightarrow> exn + json) \<Rightarrow> json list \<Rightarrow> exn + json list" where
  "py_sorted_rev key xs =
     ebind (map_e key xs) (\<lambda>ks. ebind (sort_desc (zip ks xs)) (\<lambda>r. Inr (map snd r)))"

section \<open>Floats\<close>

text \<open>
  A Python \<^verbatim>\<open>float\<close> is a double, kept as the rational it is. The code makes floats in
  two ways only: by dividing an \<^verbatim>\<open>int\<close> by an \<^verbatim>\<open>int\<close> (\<^verbatim>\<open>/\<close>, and inside
  \<^verbatim>\<open>total_seconds\<close>), which gives the double nearest to the quotient, and by
  \<^verbatim>\<open>round(x, 2)\<close>. The quotients it forms are zero or lie between \<open>10\<^sup>-\<^sup>6\<close> and
  \<open>2\<^sup>6\<^sup>4\<close> in absolute value (a \<^verbatim>\<open>datetime\<close> lies within the years 1 to 9999), far
  from the least and the greatest double, so that the exponent has no bound here.
\<close>

text \<open>The nearest integer, the even one of two that are as near.\<close>

definition round_half_even :: "rat \<Rightarrow> int" where
  "round_half_even q =
     (let f = \<lfloor>q\<rfloor>; d = q - of_int f in
      if d < 1 / 2 then f else if 1 / 2 < d then f + 1 else if even f then f else f + 1)"

text \<open>For \<open>q > 0\<close>, the \<open>e\<close> with \<open>2\<^sup>e \<le> q < 2\<^sup>e\<^sup>+\<^sup>1\<close>.\<close>

definition ilog2 :: "rat \<Rightarrow> int" where
  "ilog2 q = (if 1 \<le> q then bitlen \<lfloor>q\<rfloor> - 1 else - bitlen (\<lceil>1 / q\<rceil> - 1))"

text \<open>
  The double nearest to \<open>q\<close>, the one with an even significand of two that are as near:
  \<open>q\<close> rounded to a multiple of \<open>2\<^sup>e\<^sup>-\<^sup>5\<^sup>2\<close>, where \<open>2\<^sup>e \<le> \<bar>q\<bar> < 2\<^sup>e\<^sup>+\<^sup>1\<close>.
\<close>

definition to_double :: "rat \<Rightarrow> rat" where
  "to_double q =
     (if q = 0 then 0
      else let ulp = 2 powi (ilog2 \<bar>q\<bar> - 52) in of_int (round_half_even (q / ulp)) * ulp)"

text \<open>\<^verbatim>\<open>a / b\<close> on two \<^verbatim>\<open>int\<close>s, \<open>b\<close> not zero: the quotient, correctly rounded.\<close>

definition true_div :: "int \<Rightarrow> int \<Rightarrow> rat" where
  "true_div a b = to_double (of_int a / of_int b)"

text \<open>\<^verbatim>\<open>int(x)\<close> on a float: towards zero.\<close>

definition py_int :: "rat \<Rightarrow> int" where
  "py_int x = (if 0 \<le> x then \<lfloor>x\<rfloor> else \<lceil>x\<rceil>)"

text \<open>
  \<^verbatim>\<open>round(x, 2)\<close> on a float: the value of \<open>x\<close> is rounded to the nearest hundredth
  (the even one on a tie) and the double nearest to that decimal is returned.
\<close>

definition round2 :: "rat \<Rightarrow> rat" where
  "round2 x = to_double (of_int (round_half_even (x * 100)) / 100)"

section \<open>Timestamps\<close>

text \<open>
  A \<^verbatim>\<open>datetime\<close> is naive (no offset) or aware; its value is a number of microseconds
  (since the epoch when aware, of the wall clock when naive). Comparing or subtracting
  a naive and an aware one is a \<^verbatim>\<open>TypeError\<close>.
\<close>

datatype datetime = Naive int | Aware int

fun dt_sub :: "datetime \<Rightarrow> datetime \<Rightarrow> exn + int" where
  "dt_sub (Naive a) (Naive b) = Inr (a - b)"
| "dt_sub (Aware a) (Aware b) = Inr (a - b)"
| "dt_sub _ _ = Inl TypeError"

fun dt_lt :: "datetime \<Rightarrow> datetime \<Rightarrow> exn + bool" where
  "dt_lt (Naive a) (Naive b) = Inr (a < b)"
| "dt_lt (Aware a) (Aware b) = Inr (a < b)"
| "dt_lt _ _ = Inl TypeError"

text \<open>\<^verbatim>\<open>s.replace("Z", "+00:00")\<close>\<close>

definition replace_Z :: "string \<Rightarrow> string" where
  "replace_Z s = concat (map (\<lambda>c. if c = CHR ''Z'' then ''+00:00'' else [c]) s)"

text \<open>
  \<^verbatim>\<open>parse_timestamp(iso_string)\<close>. \<^verbatim>\<open>datetime.fromisoformat\<close> belongs to the Python
  library and accepts more or fewer formats from one version to the next: it is the
  parameter \<open>fromiso\<close>, and what is proved holds for each of them.
\<close>

definition parse_timestamp :: "(string \<Rightarrow> exn + datetime) \<Rightarrow> json \<Rightarrow> exn + datetime option" where
  "parse_timestamp fromiso iso_string =
     (if \<not> truthy iso_string then Inr None
      else case iso_string of
             JStr s \<Rightarrow> ebind (fromiso (replace_Z s)) (\<lambda>d. Inr (Some d))
           | _ \<Rightarrow> Inl AttributeError)"

text \<open>
  \<^verbatim>\<open>td.total_seconds()\<close>: the microseconds of the difference, an \<^verbatim>\<open>int\<close>, divided by
  \<^verbatim>\<open>10**6\<close>.
\<close>

definition total_seconds :: "int \<Rightarrow> rat" where
  "total_seconds us = true_div us 1000000"

text \<open>\<^verbatim>\<open>int(td.total_seconds())\<close>\<close>

definition whole_seconds :: "int \<Rightarrow> int" where
  "whole_seconds us = py_int (total_seconds us)"

definition calculate_time_diff ::
  "(string \<Rightarrow> exn + datetime) \<Rightarrow> json \<Rightarrow> json \<Rightarrow> exn + int option" where
  "calculate_time_diff fromiso start_time end_time =
     ebind (parse_timestamp fromiso start_time) (\<lambda>start.
     ebind (parse_timestamp fromiso end_time) (\<lambda>end.
       case start of
         None \<Rightarrow> Inr None
       | Some s \<Rightarrow>
           (case end of
              None \<Rightarrow> Inr None
            | Some e \<Rightarrow> ebind (dt_sub e s) (\<lambda>us. Inr (Some (whole_seconds us))))))"

subsection \<open>\<^verbatim>\<open>datetime.fromisoformat\<close> on timestamps to the second\<close>

text \<open>
  For concrete inputs. Every version of Python since 3.7 reads alike the strings
  \<^verbatim>\<open>YYYY-MM-DD\<close> and \<^verbatim>\<open>YYYY-MM-DDTHH:MM:SS\<close> (also with a space for \<^verbatim>\<open>T\<close>), the second one
  followed or not by a fraction \<^verbatim>\<open>.fff\<close> or \<^verbatim>\<open>.ffffff\<close> and by an offset \<^verbatim>\<open>+HH:MM\<close> or
  \<^verbatim>\<open>-HH:MM\<close>: without offset as a naive \<^verbatim>\<open>datetime\<close>, with one as an aware \<^verbatim>\<open>datetime\<close>,
  the instant being the wall clock less the offset. \<open>fromisoformat\<close> is the function on
  these strings. On every other string it answers \<^verbatim>\<open>ValueError\<close>, as Python does on
  most of them; the versions differ on the rest (hours alone, the basic format, week
  dates), which no statement below uses.
\<close>

definition digit :: "char \<Rightarrow> nat option" where
  "digit c = (if (48::nat) \<le> of_char c \<and> (of_char c::nat) \<le> 57
              then Some (of_char c - 48) else None)"

fun decimal :: "nat \<Rightarrow> string \<Rightarrow> nat option" where
  "decimal acc [] = Some acc"
| "decimal acc (c # cs) = (case digit c of None \<Rightarrow> None | Some d \<Rightarrow> decimal (10 * acc + d) cs)"

definition days_in_month :: "nat \<Rightarrow> nat \<Rightarrow> nat" where
  "days_in_month y m =
     (if m = 2 then (if y mod 4 = 0 \<and> (y mod 100 \<noteq> 0 \<or> y mod 400 = 0) then 29 else 28)
      else if m = 4 \<or> m = 6 \<or> m = 9 \<or> m = 11 then 30 else 31)"

text \<open>Days from 1970-01-01 to the given day of the proleptic Gregorian calendar.\<close>

definition days_from_civil :: "int \<Rightarrow> int \<Rightarrow> int \<Rightarrow> int" where
  "days_from_civil y m d =
     (let y' = (if m \<le> 2 then y - 1 else y);
          era = y' div 400;
          yoe = y' - era * 400;
          mp = (m + 9) mod 12;
          doy = (153 * mp + 2) div 5 + d - 1;
          doe = yoe * 365 + yoe div 4 - yoe div 100 + doy
      in era * 146097 + doe - 719468)"

text \<open>\<^verbatim>\<open>YYYY-MM-DD\<close>: the days since 1970-01-01.\<close>

definition iso_date :: "string \<Rightarrow> int option" where
  "iso_date s =
     (if length s = 10 \<and> s ! 4 = CHR ''-'' \<and> s ! 7 = CHR ''-''
      then
        (case decimal 0 (take 4 s) of None \<Rightarrow> None | Some y \<Rightarrow>
        (case decimal 0 (take 2 (drop 5 s)) of None \<Rightarrow> None | Some m \<Rightarrow>
        (case decimal 0 (drop 8 s) of None \<Rightarrow> None | Some d \<Rightarrow>
           if 1 \<le> y \<and> 1 \<le> m \<and> m \<le> 12 \<and> 1 \<le> d \<and> d \<le> days_in_month y m
           then Some (days_from_civil (int y) (int m) (int d)) else None)))
      else None)"

text \<open>\<^verbatim>\<open>HH:MM:SS\<close>: the seconds since midnight.\<close>

definition iso_clock :: "string \<Rightarrow> int option" where
  "iso_clock s =
     (if length s = 8 \<and> s ! 2 = CHR '':'' \<and> s ! 5 = CHR '':''
      then
        (case decimal 0 (take 2 s) of None \<Rightarrow> None | Some h \<Rightarrow>
        (case decimal 0 (take 2 (drop 3 s)) of None \<Rightarrow> None | Some mi \<Rightarrow>
        (case decimal 0 (drop 6 s) of None \<Rightarrow> None | Some sec \<Rightarrow>
           if h < 24 \<and> mi < 60 \<and> sec < 60
           then Some (int h * 3600 + int mi * 60 + int sec) else None)))
      else None)"

text \<open>Nothing, \<^verbatim>\<open>.fff\<close> or \<^verbatim>\<open>.ffffff\<close>: the microseconds.\<close>

definition iso_fraction :: "string \<Rightarrow> int option" where
  "iso_fraction s =
     (if s = [] then Some 0
      else if hd s = CHR ''.'' \<and> length s = 4
      then (case decimal 0 (tl s) of None \<Rightarrow> None | Some n \<Rightarrow> Some (int n * 1000))
      else if hd s = CHR ''.'' \<and> length s = 7
      then (case decimal 0 (tl s) of None \<Rightarrow> None | Some n \<Rightarrow> Some (int n))
      else None)"

text \<open>\<^verbatim>\<open>+HH:MM\<close> or \<^verbatim>\<open>-HH:MM\<close>: the seconds east of UTC.\<close>

definition iso_offset :: "string \<Rightarrow> int option" where
  "iso_offset s =
     (if length s = 6 \<and> (hd s = CHR ''+'' \<or> hd s = CHR ''-'') \<and> s ! 3 = CHR '':''
      then
        (case decimal 0 (take 2 (tl s)) of None \<Rightarrow> None | Some h \<Rightarrow>
        (case decimal 0 (drop 4 s) of None \<Rightarrow> None | Some mi \<Rightarrow>
           if h < 24 \<and> mi < 60
           then Some ((if hd s = CHR ''-'' then - 1 else 1) * (int h * 3600 + int mi * 60))
           else None))
      else None)"

definition no_sign :: "char \<Rightarrow> bool" where
  "no_sign c = (c \<noteq> CHR ''+'' \<and> c \<noteq> CHR ''-'')"

definition fromisoformat :: "string \<Rightarrow> exn + datetime" where
  "fromisoformat s =
     (case iso_date (take 10 s) of
        None \<Rightarrow> Inl ValueError
      | Some days \<Rightarrow>
          if length s = 10 then Inr (Naive (days * 86400 * 1000000))
          else if s ! 10 \<noteq> CHR ''T'' \<and> s ! 10 \<noteq> CHR '' '' then Inl ValueError
          else
            (case iso_clock (take 8 (drop 11 s)) of
               None \<Rightarrow> Inl ValueError
             | Some secs \<Rightarrow>
                 (case iso_fraction (takeWhile no_sign (drop 19 s)) of
                    None \<Rightarrow> Inl ValueError
                  | Some usec \<Rightarrow>
                      if dropWhile no_sign (drop 19 s) = []
                      then Inr (Naive ((days * 86400 + secs) * 1000000 + usec))
                      else
                        (case iso_offset (dropWhile no_sign (drop 19 s)) of
                           None \<Rightarrow> Inl ValueError
                         | Some off \<Rightarrow>
                             Inr (Aware ((days * 86400 + secs - off) * 1000000 + usec))))))"

section \<open>harvest\_data.py: the derived metrics\<close>

subsection \<open>\<^verbatim>\<open>calculate_timestamps(issue, comments)\<close>\<close>

text \<open>The dict the function returns, one field per key; \<open>None\<close> is Python's \<^verbatim>\<open>None\<close>.\<close>

record timestamp_metrics =
  time_to_close_seconds :: "int option"
  time_to_first_comment_seconds :: "int option"
  time_to_first_response_seconds :: "int option"
  time_open_days :: "rat option"

text \<open>The key of \<^verbatim>\<open>min\<close>, \<^verbatim>\<open>max\<close> and \<^verbatim>\<open>sorted\<close>: \<^verbatim>\<open>lambda c: c.get("created_at", "")\<close>.\<close>

definition created_key :: "json \<Rightarrow> exn + json" where
  "created_key c = py_get c ''created_at'' (JStr '''')"

text \<open>\<^verbatim>\<open>c.get("user", {}).get("login")\<close>\<close>

definition user_login :: "json \<Rightarrow> exn + json" where
  "user_login c = ebind (py_get c ''user'' (JObj [])) (\<lambda>u. py_get0 u ''login'')"

text \<open>The three blocks of the function, in the order of the source.\<close>

text \<open>\<^verbatim>\<open># Time to close\<close>: \<^verbatim>\<open>time_to_close_seconds\<close> and \<^verbatim>\<open>time_open_days\<close>.\<close>

definition time_to_close ::
  "(string \<Rightarrow> exn + datetime) \<Rightarrow> json \<Rightarrow> json \<Rightarrow> exn + (int option \<times> rat option)" where
  "time_to_close fromiso created_at closed_at =
     (if truthy created_at \<and> truthy closed_at
      then ebind (calculate_time_diff fromiso created_at closed_at) (\<lambda>ttc.
             case ttc of
               None \<Rightarrow> Inl TypeError
             | Some s \<Rightarrow> Inr (ttc, Some (round2 (true_div s 86400))))
      else Inr (None, None))"

text \<open>\<^verbatim>\<open># Time to first comment (any comment)\<close>\<close>

definition time_to_first_comment ::
  "(string \<Rightarrow> exn + datetime) \<Rightarrow> json \<Rightarrow> json list \<Rightarrow> exn + int option" where
  "time_to_first_comment fromiso created_at comments =
     (if comments \<noteq> [] \<and> truthy created_at
      then ebind (py_min created_key comments) (\<lambda>first_comment.
           ebind (py_get0 first_comment ''created_at'') (\<lambda>t.
             calculate_time_diff fromiso created_at t))
      else Inr None)"

text \<open>\<^verbatim>\<open># Time to first response (comment from someone other than issue author)\<close>\<close>

definition time_to_first_response ::
  "(string \<Rightarrow> exn + datetime) \<Rightarrow> json \<Rightarrow> json \<Rightarrow> json list \<Rightarrow> exn + int option" where
  "time_to_first_response fromiso issue created_at comments =
     (if comments \<noteq> [] \<and> truthy created_at
      then ebind (user_login issue) (\<lambda>author_username.
           ebind (filter_e (\<lambda>c. ebind (user_login c) (\<lambda>l. Inr (\<not> py_eq l author_username)))
                    comments) (\<lambda>other_comments.
             if other_comments \<noteq> []
             then ebind (py_min created_key other_comments) (\<lambda>first_response.
                  ebind (py_get0 first_response ''created_at'') (\<lambda>t.
                    calculate_time_diff fromiso created_at t))
             else Inr None))
      else Inr None)"

definition calculate_timestamps ::
  "(string \<Rightarrow> exn + datetime) \<Rightarrow> json \<Rightarrow> json list \<Rightarrow> exn + timestamp_metrics" where
  "calculate_timestamps fromiso issue comments =
     ebind (py_get0 issue ''created_at'') (\<lambda>created_at.
     ebind (py_get0 issue ''closed_at'') (\<lambda>closed_at.
     ebind (time_to_close fromiso created_at closed_at) (\<lambda>close.
     ebind (time_to_first_comment fromiso created_at comments) (\<lambda>ttfc.
     ebind (time_to_first_response fromiso issue created_at comments) (\<lambda>ttfr.
       Inr \<lparr>time_to_close_seconds = fst close,
            time_to_first_comment_seconds = ttfc,
            time_to_first_response_seconds = ttfr,
            time_open_days = snd close\<rparr>)))))"

subsection \<open>\<^verbatim>\<open>calculate_reopen_metrics(issue, events)\<close>\<close>

record reopen_metrics =
  was_reopened :: bool
  reopen_count :: nat
  time_to_reopen_seconds :: "int option"
  final_resolution_time_seconds :: "int option"
  reopen_timestamps :: "json list"

text \<open>\<^verbatim>\<open>[e for e in events if e.get("event") == kind]\<close>\<close>

definition events_of_kind :: "string \<Rightarrow> json list \<Rightarrow> exn + json list" where
  "events_of_kind kind events =
     filter_e (\<lambda>e. ebind (py_get0 e ''event'') (\<lambda>v. Inr (py_eq v (JStr kind)))) events"

definition calculate_reopen_metrics ::
  "(string \<Rightarrow> exn + datetime) \<Rightarrow> json \<Rightarrow> json list \<Rightarrow> exn + reopen_metrics" where
  "calculate_reopen_metrics fromiso issue events =
     ebind (events_of_kind ''closed'' events) (\<lambda>closed_events.
     ebind (events_of_kind ''reopened'' events) (\<lambda>reopened_events.
       if reopened_events = []
       then Inr \<lparr>was_reopened = False, reopen_count = 0, time_to_reopen_seconds = None,
                 final_resolution_time_seconds = None, reopen_timestamps = []\<rparr>
       else
         ebind (map_e (\<lambda>e. py_get0 e ''created_at'') reopened_events) (\<lambda>stamps.
         ebind
           (if closed_events \<noteq> [] \<and> reopened_events \<noteq> []
            then ebind (py_min created_key closed_events) (\<lambda>first_close.
                 ebind (py_min created_key reopened_events) (\<lambda>first_reopen.
                 ebind (py_get0 first_close ''created_at'') (\<lambda>t1.
                 ebind (py_get0 first_reopen ''created_at'') (\<lambda>t2.
                   calculate_time_diff fromiso t1 t2))))
            else Inr None) (\<lambda>ttr.
         ebind (py_get0 issue ''state'') (\<lambda>state.
         ebind
           (if py_eq state (JStr ''closed'')
            then ebind (py_get0 issue ''created_at'') (\<lambda>created_at.
                 ebind (py_get0 issue ''closed_at'') (\<lambda>closed_at.
                   if truthy created_at \<and> truthy closed_at
                   then calculate_time_diff fromiso created_at closed_at
                   else Inr None))
            else Inr None) (\<lambda>frt.
           Inr \<lparr>was_reopened = True, reopen_count = length reopened_events,
                time_to_reopen_seconds = ttr, final_resolution_time_seconds = frt,
                reopen_timestamps = stamps\<rparr>))))))"

subsection \<open>What the specification says of the first response\<close>

text \<open>
  The terms of the specification, read off the JSON without any function of the code:
  a field of an object, the author of an issue or comment (the login of its user;
  \<^verbatim>\<open>None\<close> when it has no user, or the user no login), the \<^verbatim>\<open>created_at\<close> string, and
  the instant that string denotes, in microseconds, when \<open>fromiso\<close> reads it (with
  \<^verbatim>\<open>+00:00\<close> for \<^verbatim>\<open>Z\<close>) as an aware \<^verbatim>\<open>datetime\<close>.
\<close>

definition field :: "string \<Rightarrow> json \<Rightarrow> json option" where
  "field k v = (case v of JObj kvs \<Rightarrow> map_of kvs k | _ \<Rightarrow> None)"

definition author :: "json \<Rightarrow> json" where
  "author c =
     (case field ''user'' c of
        None \<Rightarrow> JNull
      | Some u \<Rightarrow> (case field ''login'' u of None \<Rightarrow> JNull | Some l \<Rightarrow> l))"

definition created :: "json \<Rightarrow> string" where
  "created c = (case field ''created_at'' c of Some (JStr s) \<Rightarrow> s | _ \<Rightarrow> [])"

definition utc_of :: "(string \<Rightarrow> exn + datetime) \<Rightarrow> json \<Rightarrow> int option" where
  "utc_of fromiso v =
     (case v of
        JStr s \<Rightarrow>
          (if s = [] then None
           else case fromiso (replace_Z s) of Inr (Aware t) \<Rightarrow> Some t | _ \<Rightarrow> None)
      | _ \<Rightarrow> None)"

definition instant :: "(string \<Rightarrow> exn + datetime) \<Rightarrow> json \<Rightarrow> int option" where
  "instant fromiso c =
     (case field ''created_at'' c of Some v \<Rightarrow> utc_of fromiso v | None \<Rightarrow> None)"

text \<open>The microseconds from the creation of the issue to the creation of a comment.\<close>

definition elapsed :: "(string \<Rightarrow> exn + datetime) \<Rightarrow> json \<Rightarrow> json \<Rightarrow> int" where
  "elapsed fromiso issue c =
     (case (instant fromiso issue, instant fromiso c) of
        (Some t0, Some t) \<Rightarrow> t - t0
      | _ \<Rightarrow> 0)"

text \<open>The whole seconds of a number of microseconds, towards zero.\<close>

definition seconds_of :: "int \<Rightarrow> int" where
  "seconds_of us = sgn us * (\<bar>us\<bar> div 1000000)"

text \<open>The comments whose author differs from the author of the issue.\<close>

definition responses :: "json \<Rightarrow> json list \<Rightarrow> json list" where
  "responses issue comments = filter (\<lambda>c. author c \<noteq> author issue) comments"

text \<open>
  C9 as it is written: the seconds from the creation of the issue to the earliest of
  these comments; absent when there is none.
\<close>

definition claimed_first_response ::
  "(string \<Rightarrow> exn + datetime) \<Rightarrow> json \<Rightarrow> json list \<Rightarrow> int option" where
  "claimed_first_response fromiso issue comments =
     (case responses issue comments of
        [] \<Rightarrow> None
      | c # cs \<Rightarrow> Some (seconds_of (Min (set (map (elapsed fromiso issue) (c # cs))))))"

text \<open>
  An issue or comment as GitHub sends it: the user is absent or an object, the login
  absent, null or a string, and \<^verbatim>\<open>created_at\<close> is a timestamp.
\<close>

definition github_shaped :: "(string \<Rightarrow> exn + datetime) \<Rightarrow> json \<Rightarrow> bool" where
  "github_shaped fromiso c =
     ((case field ''user'' c of None \<Rightarrow> True | Some u \<Rightarrow> is_dict u)
      \<and> (author c = JNull \<or> is_str (author c))
      \<and> instant fromiso c \<noteq> None)"

text \<open>The issue is open (\<^verbatim>\<open>closed_at\<close> absent or null) or its \<^verbatim>\<open>closed_at\<close> is a timestamp.\<close>

definition closed_at_ok :: "(string \<Rightarrow> exn + datetime) \<Rightarrow> json \<Rightarrow> bool" where
  "closed_at_ok fromiso issue =
     (case field ''closed_at'' issue of
        None \<Rightarrow> True
      | Some v \<Rightarrow> v = JNull \<or> utc_of fromiso v \<noteq> None)"

text \<open>
  The order of the \<^verbatim>\<open>created_at\<close> strings of the comments is the order of the instants
  they denote, as it is when all are written in one format with one offset.
\<close>

definition order_agrees :: "(string \<Rightarrow> exn + datetime) \<Rightarrow> json \<Rightarrow> json list \<Rightarrow> bool" where
  "order_agrees fromiso issue cs =
     list_all (\<lambda>a. list_all (\<lambda>b. str_lt (created a) (created b)
                                  \<longrightarrow> elapsed fromiso issue a \<le> elapsed fromiso issue b) cs) cs"

subsection \<open>The example of the specification\<close>

text \<open>An issue by alice, created as 2024 begins, and a comment by a user at a time.\<close>

definition alice_issue :: json where
  "alice_issue =
     JObj [(''number'', JInt 1), (''created_at'', JStr ''2024-01-01T00:00:00Z''),
           (''user'', JObj [(''login'', JStr ''alice'')])]"

definition comment_by :: "string \<Rightarrow> string \<Rightarrow> json" where
  "comment_by login stamp =
     JObj [(''body'', JStr ''a comment''), (''created_at'', JStr stamp),
           (''user'', JObj [(''login'', JStr login)])]"

section \<open>harvest\_data.py: fetching\<close>

text \<open>
  A request stands for the URL \<^verbatim>\<open>fetch\<close> is called with: its template, and the values
  the f-string puts into it, kept as they are (\<^verbatim>\<open>str\<close> of a value that is not a string
  is not modelled). \<open>Reviews\<close> carries the page number.
\<close>

datatype request =
    PullRequest string string json
  | Reviews string string json nat
  | Commit string string json
  | CommitPulls string string json

text \<open>
  The network answers a request, given the requests made before it, with what
  \<^verbatim>\<open>fetch(url)\<close> returns or raises; \<open>None\<close> when \<^verbatim>\<open>fetch\<close> never returns (it sleeps and
  asks again for as long as GitHub answers that the rate limit is reached).
\<close>

type_synonym network = "request list \<Rightarrow> request \<Rightarrow> (exn + json) option"

text \<open>
  A computation that fetches: from the requests made so far to its result (returned or
  raised) and the requests made by then; \<open>None\<close> when it never ends.
\<close>

type_synonym 'a io = "request list \<Rightarrow> ((exn + 'a) \<times> request list) option"

definition io_return :: "'a \<Rightarrow> 'a io" where
  "io_return x = (\<lambda>tr. Some (Inr x, tr))"

definition io_pure :: "exn + 'a \<Rightarrow> 'a io" where
  "io_pure r = (\<lambda>tr. Some (r, tr))"

definition io_bind :: "'a io \<Rightarrow> ('a \<Rightarrow> 'b io) \<Rightarrow> 'b io" where
  "io_bind m f =
     (\<lambda>tr. case m tr of
             None \<Rightarrow> None
           | Some (Inl e, tr') \<Rightarrow> Some (Inl e, tr')
           | Some (Inr x, tr') \<Rightarrow> f x tr')"

text \<open>\<^verbatim>\<open>try: m except Exception: h\<close>\<close>

definition io_try :: "'a io \<Rightarrow> (exn \<Rightarrow> 'a io) \<Rightarrow> 'a io" where
  "io_try m h =
     (\<lambda>tr. case m tr of
             None \<Rightarrow> None
           | Some (Inl e, tr') \<Rightarrow> h e tr'
           | Some (Inr x, tr') \<Rightarrow> Some (Inr x, tr'))"

definition fetch :: "network \<Rightarrow> request \<Rightarrow> json io" where
  "fetch net req = (\<lambda>tr. case net tr req of None \<Rightarrow> None | Some r \<Rightarrow> Some (r, tr @ [req]))"

subsection \<open>Iterating and measuring a value\<close>

text \<open>The code points of a string: a byte \<open>10xxxxxx\<close> continues the one before it.\<close>

definition continuation :: "char \<Rightarrow> bool" where
  "continuation c = ((128::nat) \<le> of_char c \<and> (of_char c::nat) < 192)"

function code_points :: "string \<Rightarrow> string list" where
  "code_points [] = []"
| "code_points (c # cs) = (c # takeWhile continuation cs) # code_points (dropWhile continuation cs)"
  by pat_completeness auto
termination
  by (relation "measure length") (simp_all add: length_dropWhile_le less_Suc_eq_le)

text \<open>\<^verbatim>\<open>for x in v\<close>, \<^verbatim>\<open>items.extend(v)\<close>: the items of a list, the characters of a string,
  the keys of a dict.\<close>

fun py_iter :: "json \<Rightarrow> exn + json list" where
  "py_iter (JArr xs) = Inr xs"
| "py_iter (JStr s) = Inr (map JStr (code_points s))"
| "py_iter (JObj kvs) = Inr (map (\<lambda>kv. JStr (fst kv)) kvs)"
| "py_iter _ = Inl TypeError"

text \<open>\<^verbatim>\<open>len(v)\<close>\<close>

definition py_len :: "json \<Rightarrow> exn + nat" where
  "py_len v = ebind (py_iter v) (\<lambda>xs. Inr (length xs))"

text \<open>\<^verbatim>\<open>v[0]\<close>, for a \<open>v\<close> that is true: no key of a JSON object is the number 0.\<close>

fun py_first :: "json \<Rightarrow> exn + json" where
  "py_first (JArr xs) = (case xs of [] \<Rightarrow> Inl IndexError | x # r \<Rightarrow> Inr x)"
| "py_first (JStr s) = (case code_points s of [] \<Rightarrow> Inl IndexError | c # r \<Rightarrow> Inr (JStr c))"
| "py_first (JObj kvs) = Inl KeyError"
| "py_first _ = Inl TypeError"

subsection \<open>\<^verbatim>\<open>fetch_paginated(url)\<close>\<close>

text \<open>
  The loop \<^verbatim>\<open>while True\<close> over the pages, from \<open>page\<close> on with the \<open>items\<close> gathered so
  far. It ends at a page that is false (empty), or shorter than 100, or when a fetch
  raises; a fetch that never returns, or a network that serves full pages for ever,
  keeps it running.
\<close>

partial_function (option) fetch_pages ::
  "network \<Rightarrow> (nat \<Rightarrow> request) \<Rightarrow> nat \<Rightarrow> json list \<Rightarrow> request list
     \<Rightarrow> ((exn + json list) \<times> request list) option" where
  "fetch_pages net url page items tr =
     (case net tr (url page) of
        None \<Rightarrow> None
      | Some (Inl e) \<Rightarrow> Some (Inl e, tr @ [url page])
      | Some (Inr data) \<Rightarrow>
          if \<not> truthy data then Some (Inr items, tr @ [url page])
          else (case py_iter data of
                  Inl e \<Rightarrow> Some (Inl e, tr @ [url page])
                | Inr xs \<Rightarrow>
                    if length xs < 100 then Some (Inr (items @ xs), tr @ [url page])
                    else fetch_pages net url (page + 1) (items @ xs) (tr @ [url page])))"

definition fetch_paginated :: "network \<Rightarrow> (nat \<Rightarrow> request) \<Rightarrow> json list io" where
  "fetch_paginated net url = fetch_pages net url 1 []"

subsection \<open>The fetchers that swallow a failure\<close>

text \<open>\<^verbatim>\<open>fetch_commit_details\<close>: \<^verbatim>\<open>None\<close> on any exception.\<close>

definition fetch_commit_details :: "network \<Rightarrow> string \<Rightarrow> string \<Rightarrow> json \<Rightarrow> json io" where
  "fetch_commit_details net owner repo commit_sha =
     io_try (fetch net (Commit owner repo commit_sha)) (\<lambda>e. io_return JNull)"

text \<open>\<^verbatim>\<open>fetch_pr_details\<close>: \<^verbatim>\<open>None\<close> on any exception (a 404 is only not printed).\<close>

definition fetch_pr_details :: "network \<Rightarrow> string \<Rightarrow> string \<Rightarrow> json \<Rightarrow> json io" where
  "fetch_pr_details net owner repo pr_number =
     io_try (fetch net (PullRequest owner repo pr_number)) (\<lambda>e. io_return JNull)"

text \<open>\<^verbatim>\<open>fetch_pr_reviews\<close>: the empty list on any exception.\<close>

definition fetch_pr_reviews :: "network \<Rightarrow> string \<Rightarrow> string \<Rightarrow> json \<Rightarrow> json list io" where
  "fetch_pr_reviews net owner repo pr_number =
     io_try (fetch_paginated net (Reviews owner repo pr_number)) (\<lambda>e. io_return [])"

section \<open>harvest\_data.py: the metrics of a pull request and of a commit\<close>

subsection \<open>Sets, sums and dict displays\<close>

text \<open>Lists and dicts cannot be members of a set.\<close>

fun hashable :: "json \<Rightarrow> bool" where
  "hashable (JArr xs) = False"
| "hashable (JObj kvs) = False"
| "hashable _ = True"

text \<open>\<^verbatim>\<open>s.add(x)\<close>, the set being the list of its members in the order they came.\<close>

definition set_add :: "json list \<Rightarrow> json \<Rightarrow> exn + json list" where
  "set_add s x =
     (if \<not> hashable x then Inl TypeError
      else Inr (if list_ex (\<lambda>y. py_eq y x) s then s else s @ [x]))"

text \<open>
  \<^verbatim>\<open>sorted(list(s))\<close> of a set: its members differ, so that whenever they all compare
  there is one ascending order, and insertion finds it; when they do not (a number
  among strings), insertion as every other sort makes a comparison that raises.
\<close>

fun insert_asc :: "json \<Rightarrow> json list \<Rightarrow> exn + json list" where
  "insert_asc x [] = Inr [x]"
| "insert_asc x (y # r) =
     ebind (py_lt y x) (\<lambda>lt.
       if lt then ebind (insert_asc x r) (\<lambda>r'. Inr (y # r')) else Inr (x # y # r))"

fun sort_asc :: "json list \<Rightarrow> exn + json list" where
  "sort_asc [] = Inr []"
| "sort_asc (x # r) = ebind (sort_asc r) (insert_asc x)"

text \<open>
  \<^verbatim>\<open>x + y\<close>: numbers add (to an \<^verbatim>\<open>int\<close> when neither is a float; the sum of floats
  is exact here, where Python rounds it), strings and lists concatenate.
\<close>

fun int_val :: "json \<Rightarrow> int option" where
  "int_val (JBool b) = Some (if b then 1 else 0)"
| "int_val (JInt i) = Some i"
| "int_val _ = None"

definition py_add :: "json \<Rightarrow> json \<Rightarrow> exn + json" where
  "py_add x y =
     (case (x, y) of
        (JStr a, JStr b) \<Rightarrow> Inr (JStr (a @ b))
      | (JArr a, JArr b) \<Rightarrow> Inr (JArr (a @ b))
      | _ \<Rightarrow>
          (case (int_val x, int_val y) of
             (Some a, Some b) \<Rightarrow> Inr (JInt (a + b))
           | _ \<Rightarrow>
               (case (num_val x, num_val y) of
                  (Some a, Some b) \<Rightarrow> Inr (JFloat (a + b))
                | _ \<Rightarrow> Inl TypeError)))"

text \<open>A dict display \<^verbatim>\<open>{k1: e1, k2: e2, ...}\<close>: the values are computed in order, and what
  the first failing one raises is raised.\<close>

fun build_items :: "(string \<times> (exn + json)) list \<Rightarrow> exn + (string \<times> json) list" where
  "build_items [] = Inr []"
| "build_items ((k, e) # r) = ebind e (\<lambda>v. ebind (build_items r) (\<lambda>kvs. Inr ((k, v) # kvs)))"

definition build_dict :: "(string \<times> (exn + json)) list \<Rightarrow> exn + json" where
  "build_dict fs = ebind (build_items fs) (\<lambda>kvs. Inr (JObj kvs))"

subsection \<open>\<^verbatim>\<open>extract_pr_metrics(owner, repo, pr_number)\<close>\<close>

record review_states =
  approved :: nat
  changes_requested :: nat
  commented :: nat
  dismissed :: nat

text \<open>\<^verbatim>\<open>if state in review_states: review_states[state] += 1\<close>\<close>

definition count_state :: "string \<Rightarrow> review_states \<Rightarrow> review_states" where
  "count_state s rs =
     (if s = ''approved'' then rs\<lparr>approved := approved rs + 1\<rparr>
      else if s = ''changes_requested'' then rs\<lparr>changes_requested := changes_requested rs + 1\<rparr>
      else if s = ''commented'' then rs\<lparr>commented := commented rs + 1\<rparr>
      else if s = ''dismissed'' then rs\<lparr>dismissed := dismissed rs + 1\<rparr>
      else rs)"

text \<open>\<^verbatim>\<open>for review in reviews\<close>\<close>

fun review_loop ::
  "json list \<Rightarrow> json list \<Rightarrow> review_states \<Rightarrow> exn + (json list \<times> review_states)" where
  "review_loop [] reviewers states = Inr (reviewers, states)"
| "review_loop (review # rest) reviewers states =
     ebind (user_login review) (\<lambda>reviewer_username.
     ebind (if truthy reviewer_username then set_add reviewers reviewer_username
            else Inr reviewers) (\<lambda>reviewers'.
     ebind (py_get review ''state'' (JStr '''')) (\<lambda>st.
     ebind (str_lower st) (\<lambda>state.
       review_loop rest reviewers'
         (case state of JStr s \<Rightarrow> count_state s states | _ \<Rightarrow> states)))))"

text \<open>\<^verbatim>\<open>d.get(k1, {}).get(k2)\<close>\<close>

definition get2 :: "json \<Rightarrow> string \<Rightarrow> string \<Rightarrow> exn + json" where
  "get2 d k1 k2 = ebind (py_get d k1 (JObj [])) (\<lambda>v. py_get0 v k2)"

text \<open>The part of the function after the two fetches, from the loop to the dict.\<close>

definition pr_metrics_of :: "json \<Rightarrow> json list \<Rightarrow> exn + json" where
  "pr_metrics_of pr_data reviews =
     ebind (review_loop reviews []
              \<lparr>approved = 0, changes_requested = 0, commented = 0, dismissed = 0\<rparr>)
       (\<lambda>counted.
     ebind (py_get0 pr_data ''user'') (\<lambda>u.
     ebind (py_get0 pr_data ''merged_by'') (\<lambda>mb.
       build_dict
         [(''number'', py_get0 pr_data ''number''),
          (''title'', py_get0 pr_data ''title''),
          (''html_url'', py_get0 pr_data ''html_url''),
          (''merged'', ebind (py_get0 pr_data ''merged_at'') (\<lambda>m. Inr (JBool (truthy m)))),
          (''merged_at'', py_get0 pr_data ''merged_at''),
          (''created_at'', py_get0 pr_data ''created_at''),
          (''updated_at'', py_get0 pr_data ''updated_at''),
          (''closed_at'', py_get0 pr_data ''closed_at''),
          (''state'', py_get0 pr_data ''state''),
          (''body'', py_get0 pr_data ''body''),
          (''author'',
             build_dict
               [(''username'', py_get0 (py_or u (JObj [])) ''login''),
                (''id'', py_get0 (py_or u (JObj [])) ''id''),
                (''name'', py_get0 (py_or u (JObj [])) ''name''),
                (''email'', py_get0 (py_or u (JObj [])) ''email'')]),
          (''merged_by'',
             if truthy (py_or mb (JObj []))
             then build_dict
                    [(''username'', py_get0 (py_or mb (JObj [])) ''login''),
                     (''id'', py_get0 (py_or mb (JObj [])) ''id''),
                     (''name'', py_get0 (py_or mb (JObj [])) ''name''),
                     (''email'', py_get0 (py_or mb (JObj [])) ''email'')]
             else Inr JNull),
          (''commits'', py_get0 pr_data ''commits''),
          (''additions'', py_get0 pr_data ''additions''),
          (''deletions'', py_get0 pr_data ''deletions''),
          (''total_changes'',
             ebind (py_get0 pr_data ''additions'') (\<lambda>a.
             ebind (py_get0 pr_data ''deletions'') (\<lambda>d.
               py_add (py_or a (JInt 0)) (py_or d (JInt 0))))),
          (''changed_files'', py_get0 pr_data ''changed_files''),
          (''files_changed'', py_get0 pr_data ''changed_files''),
          (''review_comments'', py_get0 pr_data ''review_comments''),
          (''comments'', py_get0 pr_data ''comments''),
          (''unique_reviewers'', Inr (JInt (int (length (fst counted))))),
          (''reviewer_usernames'', ebind (sort_asc (fst counted)) (\<lambda>r. Inr (JArr r))),
          (''total_reviews'', Inr (JInt (int (length reviews)))),
          (''approved_count'', Inr (JInt (int (approved (snd counted))))),
          (''changes_requested_count'', Inr (JInt (int (changes_requested (snd counted))))),
          (''commented_count'', Inr (JInt (int (commented (snd counted))))),
          (''head_ref'', get2 pr_data ''head'' ''ref''),
          (''base_ref'', get2 pr_data ''base'' ''ref''),
          (''head_sha'', get2 pr_data ''head'' ''sha''),
          (''merge_commit_sha'', py_get0 pr_data ''merge_commit_sha'')])))"

text \<open>The result is \<open>None\<close> for Python's \<^verbatim>\<open>None\<close>, and the dict otherwise.\<close>

definition extract_pr_metrics ::
  "network \<Rightarrow> string \<Rightarrow> string \<Rightarrow> json \<Rightarrow> json option io" where
  "extract_pr_metrics net owner repo pr_number =
     io_bind (fetch_pr_details net owner repo pr_number) (\<lambda>pr_data.
       if \<not> truthy pr_data then io_return None
       else io_bind (fetch_pr_reviews net owner repo pr_number) (\<lambda>reviews.
            io_bind (io_pure (pr_metrics_of pr_data reviews)) (\<lambda>d. io_return (Some d))))"

subsection \<open>\<^verbatim>\<open>extract_commit_metrics(owner, repo, commit_sha)\<close>\<close>

definition commit_metrics_of :: "json \<Rightarrow> exn + json" where
  "commit_metrics_of commit_data =
     ebind (py_get commit_data ''stats'' (JObj [])) (\<lambda>stats.
     ebind (ebind (py_get commit_data ''commit'' (JObj [])) (\<lambda>c. py_get c ''author'' (JObj [])))
       (\<lambda>author.
     ebind (ebind (py_get commit_data ''commit'' (JObj [])) (\<lambda>c. py_get c ''committer'' (JObj [])))
       (\<lambda>committer.
       build_dict
         [(''sha'', py_get0 commit_data ''sha''),
          (''message'', get2 commit_data ''commit'' ''message''),
          (''html_url'', py_get0 commit_data ''html_url''),
          (''author'',
             build_dict
               [(''username'', get2 commit_data ''author'' ''login''),
                (''name'', py_get0 author ''name''),
                (''email'', py_get0 author ''email''),
                (''date'', py_get0 author ''date'')]),
          (''committer'',
             build_dict
               [(''username'', get2 commit_data ''committer'' ''login''),
                (''name'', py_get0 committer ''name''),
                (''email'', py_get0 committer ''email''),
                (''date'', py_get0 committer ''date'')]),
          (''additions'', py_get0 stats ''additions''),
          (''deletions'', py_get0 stats ''deletions''),
          (''total_changes'', py_get0 stats ''total''),
          (''files_changed'',
             ebind (py_get commit_data ''files'' (JArr [])) (\<lambda>files.
             ebind (py_len files) (\<lambda>n. Inr (JInt (int n)))))])))"

definition extract_commit_metrics ::
  "network \<Rightarrow> string \<Rightarrow> string \<Rightarrow> json \<Rightarrow> json option io" where
  "extract_commit_metrics net owner repo commit_sha =
     io_bind (fetch_commit_details net owner repo commit_sha) (\<lambda>commit_data.
       if \<not> truthy commit_data then io_return None
       else io_bind (io_pure (commit_metrics_of commit_data)) (\<lambda>d. io_return (Some d)))"

section \<open>harvest\_data.py: \<^verbatim>\<open>find_closing_method\<close>\<close>

text \<open>
  The pair the function returns: \<^verbatim>\<open>(closing_pr, closing_commit)\<close>, each the metrics dict
  or \<open>None\<close> for Python's \<^verbatim>\<open>None\<close>.
\<close>

type_synonym closing = "json option \<times> json option"

subsection \<open>The validation of a candidate pull request\<close>

text \<open>
  The source repeats one block after each \<^verbatim>\<open>extract_pr_metrics\<close> (lines 451--463,
  479--492, 509--522, 536--549 and 573--585); the copies differ in the number of seconds
  allowed between the merge and the close, and in what they do once the candidate is
  refused. \<open>validate\<close> is the block, with that number as \<open>window\<close>, up to its verdict:
  \<^item> \<open>Unverified\<close>: no metrics, not merged, or one of the three times is missing: none of
    the tests on times is made;
  \<^item> \<open>MergedBeforeCreation\<close>: \<^verbatim>\<open>pr_merged_time < issue_created_time\<close>;
  \<^item> \<open>TooFarFromClose\<close>: \<^verbatim>\<open>time_diff > window\<close>;
  \<^item> \<open>Accepted\<close> otherwise.
  \<^verbatim>\<open>time_diff\<close> is \<^verbatim>\<open>abs((pr_merged_time - issue_closed_time).total_seconds())\<close>, a double,
  compared with the \<^verbatim>\<open>int\<close> \<open>window\<close> by value.
\<close>

datatype verdict = Accepted | MergedBeforeCreation | TooFarFromClose | Unverified

definition validate ::
  "(string \<Rightarrow> exn + datetime) \<Rightarrow> int \<Rightarrow> datetime option \<Rightarrow> datetime option \<Rightarrow> json option
     \<Rightarrow> exn + verdict" where
  "validate fromiso window issue_created_time issue_closed_time pr_metrics =
     (case pr_metrics of
        None \<Rightarrow> Inr Unverified
      | Some pm \<Rightarrow>
          if \<not> truthy pm then Inr Unverified
          else ebind (py_get0 pm ''merged'') (\<lambda>merged.
            if \<not> truthy merged then Inr Unverified
            else ebind (py_get0 pm ''merged_at'') (\<lambda>merged_at.
                 ebind (parse_timestamp fromiso merged_at) (\<lambda>pr_merged_time.
                   case pr_merged_time of
                     None \<Rightarrow> Inr Unverified
                   | Some m \<Rightarrow>
                       (case issue_created_time of
                          None \<Rightarrow> Inr Unverified
                        | Some c \<Rightarrow>
                            (case issue_closed_time of
                               None \<Rightarrow> Inr Unverified
                             | Some z \<Rightarrow>
                                 ebind (dt_lt m c) (\<lambda>early.
                                   if early then Inr MergedBeforeCreation
                                   else ebind (dt_sub m z) (\<lambda>us.
                                     if \<bar>total_seconds us\<bar> > of_int window then Inr TooFarFromClose
                                     else Inr Accepted))))))))"

text \<open>The five copies, each with the number of seconds the source writes in it.\<close>

text \<open>Lines 451--463, in strategy 1: \<^verbatim>\<open>if time_diff > 86400\<close>.\<close>

definition validate_direct ::
  "(string \<Rightarrow> exn + datetime) \<Rightarrow> datetime option \<Rightarrow> datetime option \<Rightarrow> json option
     \<Rightarrow> exn + verdict" where
  "validate_direct fromiso = validate fromiso 86400"

text \<open>Lines 479--492, in strategy 2: \<^verbatim>\<open>if time_diff > 604800\<close>, as in the three below.\<close>

definition validate_cross_referenced ::
  "(string \<Rightarrow> exn + datetime) \<Rightarrow> datetime option \<Rightarrow> datetime option \<Rightarrow> json option
     \<Rightarrow> exn + verdict" where
  "validate_cross_referenced fromiso = validate fromiso 604800"

text \<open>Lines 509--522, in strategy 3, for the pull request the source names.\<close>

definition validate_referenced ::
  "(string \<Rightarrow> exn + datetime) \<Rightarrow> datetime option \<Rightarrow> datetime option \<Rightarrow> json option
     \<Rightarrow> exn + verdict" where
  "validate_referenced fromiso = validate fromiso 604800"

text \<open>Lines 536--549, in strategy 3, for the pull request of the commit.\<close>

definition validate_referenced_commit ::
  "(string \<Rightarrow> exn + datetime) \<Rightarrow> datetime option \<Rightarrow> datetime option \<Rightarrow> json option
     \<Rightarrow> exn + verdict" where
  "validate_referenced_commit fromiso = validate fromiso 604800"

text \<open>Lines 573--585, in strategy 4.\<close>

definition validate_closing_commit ::
  "(string \<Rightarrow> exn + datetime) \<Rightarrow> datetime option \<Rightarrow> datetime option \<Rightarrow> json option
     \<Rightarrow> exn + verdict" where
  "validate_closing_commit fromiso = validate fromiso 604800"

text \<open>
  The pull request an event's \<^verbatim>\<open>source\<close> names: \<^verbatim>\<open>source.get("type") == "issue"\<close> and a
  true \<^verbatim>\<open>source.get("issue", {}).get("number")\<close>; \<open>None\<close> when the \<^verbatim>\<open>if\<close>s are not entered.
\<close>

definition source_pr_number :: "json \<Rightarrow> exn + json option" where
  "source_pr_number event =
     ebind (py_get event ''source'' (JObj [])) (\<lambda>source.
     ebind (py_get0 source ''type'') (\<lambda>ty.
       if py_eq ty (JStr ''issue'')
       then ebind (get2 source ''issue'' ''number'') (\<lambda>pr_number.
              Inr (if truthy pr_number then Some pr_number else None))
       else Inr None))"

subsection \<open>Strategy 1: the source of the close event\<close>

text \<open>The result of a strategy is \<open>Some\<close> of the pair it returns, or \<open>None\<close> when control
  goes on to the next strategy.\<close>

definition strategy1 ::
  "(string \<Rightarrow> exn + datetime) \<Rightarrow> network \<Rightarrow> string \<Rightarrow> string \<Rightarrow> datetime option
     \<Rightarrow> datetime option \<Rightarrow> json \<Rightarrow> closing option io" where
  "strategy1 fromiso net owner repo issue_created_time issue_closed_time closed_event =
     io_bind (io_pure (source_pr_number closed_event)) (\<lambda>n.
       case n of
         None \<Rightarrow> io_return None
       | Some pr_number \<Rightarrow>
           io_bind (extract_pr_metrics net owner repo pr_number) (\<lambda>pr_metrics.
           io_bind (io_pure (validate_direct fromiso issue_created_time issue_closed_time
                      pr_metrics)) (\<lambda>v.
             io_return (if v = Accepted then Some (pr_metrics, None) else None))))"

subsection \<open>Strategy 2: cross-referenced events\<close>

text \<open>The \<^verbatim>\<open>for\<close> loop over the sorted events: \<^verbatim>\<open>continue\<close> and the end of the body both
  go to the next event.\<close>

fun cross_ref_loop ::
  "(string \<Rightarrow> exn + datetime) \<Rightarrow> network \<Rightarrow> string \<Rightarrow> string \<Rightarrow> datetime option
     \<Rightarrow> datetime option \<Rightarrow> json list \<Rightarrow> closing option io" where
  "cross_ref_loop fromiso net owner repo ct zt [] = io_return None"
| "cross_ref_loop fromiso net owner repo ct zt (ref_event # rest) =
     io_bind (io_pure (source_pr_number ref_event)) (\<lambda>n.
       case n of
         None \<Rightarrow> cross_ref_loop fromiso net owner repo ct zt rest
       | Some pr_number \<Rightarrow>
           io_bind (extract_pr_metrics net owner repo pr_number) (\<lambda>pr_metrics.
           io_bind (io_pure (validate_cross_referenced fromiso ct zt pr_metrics)) (\<lambda>v.
             if v = Accepted then io_return (Some (pr_metrics, None))
             else cross_ref_loop fromiso net owner repo ct zt rest)))"

definition strategy2 ::
  "(string \<Rightarrow> exn + datetime) \<Rightarrow> network \<Rightarrow> string \<Rightarrow> string \<Rightarrow> datetime option
     \<Rightarrow> datetime option \<Rightarrow> json list \<Rightarrow> closing option io" where
  "strategy2 fromiso net owner repo issue_created_time issue_closed_time events =
     io_bind (io_pure (events_of_kind ''cross-referenced'' events)) (\<lambda>cross_ref_events.
       if cross_ref_events \<noteq> []
       then io_bind (io_pure (py_sorted_rev created_key cross_ref_events))
              (cross_ref_loop fromiso net owner repo issue_created_time issue_closed_time)
       else io_return None)"

subsection \<open>Strategy 3: referenced events\<close>

text \<open>
  The commit-based lookup of one referenced event (lines 524--551): the \<^verbatim>\<open>try\<close> block
  with its \<^verbatim>\<open>except Exception: continue\<close>. \<open>Some\<close> is the pair returned; \<open>None\<close> goes to
  the next event.
\<close>

definition commit_lookup ::
  "(string \<Rightarrow> exn + datetime) \<Rightarrow> network \<Rightarrow> string \<Rightarrow> string \<Rightarrow> datetime option
     \<Rightarrow> datetime option \<Rightarrow> json \<Rightarrow> closing option io" where
  "commit_lookup fromiso net owner repo ct zt ref_event =
     io_bind (io_pure (py_get0 ref_event ''commit_id'')) (\<lambda>ref_commit_id.
       if truthy ref_commit_id
       then io_try
              (io_bind (fetch net (CommitPulls owner repo ref_commit_id)) (\<lambda>prs.
                 if truthy prs
                 then io_bind (io_pure (ebind (py_first prs) (\<lambda>p. py_get0 p ''number'')))
                        (\<lambda>pr_number.
                      io_bind (extract_pr_metrics net owner repo pr_number) (\<lambda>pr_metrics.
                      io_bind (io_pure (validate_referenced_commit fromiso ct zt pr_metrics)) (\<lambda>v.
                        io_return (if v = Accepted then Some (pr_metrics, None) else None))))
                 else io_return None))
              (\<lambda>e. io_return None)
       else io_return None)"

text \<open>
  The loop: first the pull request the source names (lines 500--522), whose refusal on
  the times is a \<^verbatim>\<open>continue\<close>; in every other case that does not return, \<^verbatim>\<open>Also try
  commit-based lookup for referenced events\<close>.
\<close>

fun referenced_loop ::
  "(string \<Rightarrow> exn + datetime) \<Rightarrow> network \<Rightarrow> string \<Rightarrow> string \<Rightarrow> datetime option
     \<Rightarrow> datetime option \<Rightarrow> json list \<Rightarrow> closing option io" where
  "referenced_loop fromiso net owner repo ct zt [] = io_return None"
| "referenced_loop fromiso net owner repo ct zt (ref_event # rest) =
     io_bind (io_pure (source_pr_number ref_event)) (\<lambda>n.
     io_bind
       (case n of
          None \<Rightarrow> io_return (None, Unverified)
        | Some pr_number \<Rightarrow>
            io_bind (extract_pr_metrics net owner repo pr_number) (\<lambda>pr_metrics.
            io_bind (io_pure (validate_referenced fromiso ct zt pr_metrics)) (\<lambda>v.
              io_return (pr_metrics, v)))) (\<lambda>(pr_metrics, v).
       if v = Accepted then io_return (Some (pr_metrics, None))
       else if v = MergedBeforeCreation \<or> v = TooFarFromClose
       then referenced_loop fromiso net owner repo ct zt rest
       else io_bind (commit_lookup fromiso net owner repo ct zt ref_event) (\<lambda>r.
              case r of
                Some found \<Rightarrow> io_return (Some found)
              | None \<Rightarrow> referenced_loop fromiso net owner repo ct zt rest)))"

definition strategy3 ::
  "(string \<Rightarrow> exn + datetime) \<Rightarrow> network \<Rightarrow> string \<Rightarrow> string \<Rightarrow> datetime option
     \<Rightarrow> datetime option \<Rightarrow> json list \<Rightarrow> closing option io" where
  "strategy3 fromiso net owner repo issue_created_time issue_closed_time events =
     io_bind (io_pure (events_of_kind ''referenced'' events)) (\<lambda>referenced_events.
       if referenced_events \<noteq> []
       then io_bind (io_pure (py_sorted_rev created_key referenced_events))
              (referenced_loop fromiso net owner repo issue_created_time issue_closed_time)
       else io_return None)"

subsection \<open>Strategy 4: the commit of the close event\<close>

text \<open>\<^verbatim>\<open>commit_url.rstrip('/').split('/')[-1]\<close>: what follows the last slash once the
  trailing slashes are gone.\<close>

definition last_segment :: "string \<Rightarrow> string" where
  "last_segment s =
     rev (takeWhile (\<lambda>c. c \<noteq> CHR ''/'') (dropWhile (\<lambda>c. c = CHR ''/'') (rev s)))"

text \<open>Lines 554--560: the commit identifier of the close event.\<close>

definition closing_commit_sha :: "json \<Rightarrow> exn + json" where
  "closing_commit_sha closed_event =
     ebind (py_get0 closed_event ''commit_id'') (\<lambda>commit_sha.
     ebind (py_get0 closed_event ''commit_url'') (\<lambda>commit_url.
       if \<not> truthy commit_sha \<and> truthy commit_url
       then (case commit_url of
               JStr s \<Rightarrow> Inr (JStr (last_segment s))
             | _ \<Rightarrow> Inl AttributeError)
       else Inr commit_sha))"

text \<open>\<^verbatim>\<open>commit_sha[:7]\<close>, in the message printed: a string or a list can be sliced.\<close>

definition sliced :: "json \<Rightarrow> exn + unit" where
  "sliced v = (case v of JStr s \<Rightarrow> Inr () | JArr xs \<Rightarrow> Inr () | _ \<Rightarrow> Inl TypeError)"

definition strategy4 ::
  "(string \<Rightarrow> exn + datetime) \<Rightarrow> network \<Rightarrow> string \<Rightarrow> string \<Rightarrow> datetime option
     \<Rightarrow> datetime option \<Rightarrow> json \<Rightarrow> closing io" where
  "strategy4 fromiso net owner repo issue_created_time issue_closed_time closed_event =
     io_bind (io_pure (closing_commit_sha closed_event)) (\<lambda>commit_sha.
       if truthy commit_sha
       then io_try
              (io_bind (fetch net (CommitPulls owner repo commit_sha)) (\<lambda>prs.
                 if truthy prs
                 then io_bind (io_pure (ebind (py_first prs) (\<lambda>p. py_get0 p ''number'')))
                        (\<lambda>pr_number.
                      io_bind (extract_pr_metrics net owner repo pr_number) (\<lambda>pr_metrics.
                      io_bind (io_pure (validate_closing_commit fromiso issue_created_time
                                 issue_closed_time pr_metrics)) (\<lambda>v.
                        io_return (if v = Accepted then (pr_metrics, None) else (None, None)))))
                 else io_bind (io_pure (sliced commit_sha)) (\<lambda>u.
                      io_bind (extract_commit_metrics net owner repo commit_sha)
                        (\<lambda>commit_metrics. io_return (None, commit_metrics)))))
              (\<lambda>e. io_return (None, None))
       else io_return (None, None))"

subsection \<open>The function\<close>

definition find_closing_method ::
  "(string \<Rightarrow> exn + datetime) \<Rightarrow> network \<Rightarrow> string \<Rightarrow> string \<Rightarrow> json \<Rightarrow> json \<Rightarrow> json
     \<Rightarrow> json list \<Rightarrow> closing io" where
  "find_closing_method fromiso net owner repo issue_number issue_created_at issue_closed_at
     events =
     (if \<not> truthy issue_closed_at then io_return (None, None)
      else
        io_bind (io_pure (parse_timestamp fromiso issue_created_at)) (\<lambda>issue_created_time.
        io_bind (io_pure (parse_timestamp fromiso issue_closed_at)) (\<lambda>issue_closed_time.
        io_bind (io_pure (events_of_kind ''closed'' events)) (\<lambda>closed_events.
          if closed_events = [] then io_return (None, None)
          else
            io_bind (io_pure (py_max created_key closed_events)) (\<lambda>closed_event.
            io_bind (strategy1 fromiso net owner repo issue_created_time issue_closed_time
                       closed_event) (\<lambda>r1.
              case r1 of
                Some found \<Rightarrow> io_return found
              | None \<Rightarrow>
                  io_bind (strategy2 fromiso net owner repo issue_created_time
                             issue_closed_time events) (\<lambda>r2.
                    case r2 of
                      Some found \<Rightarrow> io_return found
                    | None \<Rightarrow>
                        io_bind (strategy3 fromiso net owner repo issue_created_time
                                   issue_closed_time events) (\<lambda>r3.
                          case r3 of
                            Some found \<Rightarrow> io_return found
                          | None \<Rightarrow>
                              strategy4 fromiso net owner repo issue_created_time
                                issue_closed_time closed_event))))))))"

subsection \<open>\<^verbatim>\<open>build_output\<close>: how the issue was closed (lines 626--635)\<close>

definition closing_of_issue ::
  "(string \<Rightarrow> exn + datetime) \<Rightarrow> network \<Rightarrow> string \<Rightarrow> string \<Rightarrow> json \<Rightarrow> json
     \<Rightarrow> json list \<Rightarrow> closing io" where
  "closing_of_issue fromiso net owner repo number issue events =
     io_bind (io_pure (py_get0 issue ''state'')) (\<lambda>state.
       if py_eq state (JStr ''closed'')
       then io_bind (io_pure (py_get0 issue ''created_at'')) (\<lambda>created_at.
            io_bind (io_pure (py_get0 issue ''closed_at'')) (\<lambda>closed_at.
              find_closing_method fromiso net owner repo number created_at closed_at events))
       else io_return (None, None))"

subsection \<open>What the specification says of the resolution\<close>

text \<open>The timeline holds no \<^verbatim>\<open>closed\<close> event: its events are objects, none of that kind.\<close>

definition no_closed :: "json list \<Rightarrow> bool" where
  "no_closed events =
     list_all (\<lambda>e. is_dict e \<and> field ''event'' e \<noteq> Some (JStr ''closed'')) events"

text \<open>A timestamp of the issue that is absent (false) or a string that \<open>fromiso\<close> reads.\<close>

definition parses :: "(string \<Rightarrow> exn + datetime) \<Rightarrow> json \<Rightarrow> bool" where
  "parses fromiso v =
     (case v of JStr s \<Rightarrow> s = [] \<or> \<not> isl (fromiso (replace_Z s)) | _ \<Rightarrow> \<not> truthy v)"




text \<open>A network on which every request fails.\<close>

definition offline :: network where
  "offline = (\<lambda>tr req. Some (Inl ConnectionError))"


section \<open>Properties\<close>

lemma ebind_simps [simp]: "ebind (Inl e) f = Inl e" "ebind (Inr v) f = f v"
  by (simp_all add: ebind_def)

subsection \<open>Doubles\<close>

lemma rhe_err: "\<bar>of_int (round_half_even x) - x\<bar> \<le> 1 / 2"
  unfolding round_half_even_def Let_def by (auto simp: abs_if) linarith+

lemma rhe_int [simp]: "round_half_even (of_int n) = n"
  by (simp add: round_half_even_def)

lemma ilog2_ge1:
  assumes "1 \<le> q"
  shows "2 powi (ilog2 q) \<le> q" and "q < 2 powi (ilog2 q + 1)"
proof -
  let ?n = "\<lfloor>q\<rfloor>"
  have n: "0 < ?n" using assms by simp
  from bitlen_bounds [OF n] have lo: "2 ^ nat (bitlen ?n - 1) \<le> ?n"
    and hi: "?n < 2 ^ nat (bitlen ?n)" by simp_all
  have b: "1 \<le> bitlen ?n" using n bitlen_eq_zero_iff [of ?n] bitlen_nonneg [of ?n] by linarith
  have i: "ilog2 q = bitlen ?n - 1" using assms by (simp add: ilog2_def)
  have "(2::rat) powi (bitlen ?n - 1) = of_int (2 ^ nat (bitlen ?n - 1))"
    using b by (simp add: power_int_nonneg_exp)
  also have "\<dots> \<le> of_int ?n" using lo by (simp only: of_int_le_iff)
  also have "\<dots> \<le> q" by simp
  finally show "2 powi (ilog2 q) \<le> q" using i by simp
  have "q < of_int (?n + 1)" by linarith
  also have "\<dots> \<le> of_int (2 ^ nat (bitlen ?n))"
  proof -
    have "?n + 1 \<le> 2 ^ nat (bitlen ?n)" using hi by simp
    then show ?thesis by (simp only: of_int_le_iff)
  qed
  also have "\<dots> = (2::rat) powi (bitlen ?n)" using b by (simp add: power_int_nonneg_exp)
  finally show "q < 2 powi (ilog2 q + 1)" using i by simp
qed

lemma ilog2_lt1:
  assumes "0 < q" "q < 1"
  shows "2 powi (ilog2 q) \<le> q" and "q < 2 powi (ilog2 q + 1)"
proof -
  let ?m = "\<lceil>1 / q\<rceil>"
  let ?k = "bitlen (?m - 1)"
  have "1 < 1 / q" using assms by simp
  then have m: "0 < ?m - 1" by linarith
  from bitlen_bounds [OF m] have lo: "2 ^ nat (?k - 1) \<le> ?m - 1"
    and hi: "?m - 1 < 2 ^ nat ?k" by simp_all
  have b: "1 \<le> ?k" using m bitlen_eq_zero_iff [of "?m - 1"] bitlen_nonneg [of "?m - 1"] by linarith
  have i: "ilog2 q = - ?k" using assms by (simp add: ilog2_def)
  have "1 / q \<le> of_int ?m" by simp
  also have "\<dots> \<le> of_int (2 ^ nat ?k)"
  proof -
    have "?m \<le> 2 ^ nat ?k" using hi by simp
    then show ?thesis by (simp only: of_int_le_iff)
  qed
  finally have "1 / q \<le> 2 ^ nat ?k" by simp
  then have "1 \<le> 2 ^ nat ?k * q" using assms(1) by (simp add: field_simps)
  then have "1 / 2 ^ nat ?k \<le> q" by (simp add: field_simps)
  moreover have "(2::rat) powi (- ?k) = 1 / 2 ^ nat ?k"
    using b by (simp only: power_int_minus_divide) (simp add: power_int_nonneg_exp)
  ultimately show "2 powi (ilog2 q) \<le> q" using i by simp
  have "(of_int (2 ^ nat (?k - 1)) :: rat) \<le> of_int (?m - 1)" using lo by (simp only: of_int_le_iff)
  also have "\<dots> < 1 / q" by linarith
  finally have "2 ^ nat (?k - 1) < 1 / q" by simp
  then have "2 ^ nat (?k - 1) * q < 1" using assms(1) by (simp add: field_simps)
  then have "q < 1 / 2 ^ nat (?k - 1)" by (simp add: field_simps)
  moreover have "(2::rat) powi (- ?k + 1) = 1 / 2 ^ nat (?k - 1)"
  proof -
    have "- ?k + 1 = - (?k - 1)" by simp
    then have "(2::rat) powi (- ?k + 1) = 1 / 2 powi (?k - 1)"
      by (simp only: power_int_minus_divide)
    then show ?thesis using b by (simp add: power_int_nonneg_exp)
  qed
  ultimately show "q < 2 powi (ilog2 q + 1)" using i by simp
qed

lemma ilog2_bounds:
  assumes "0 < q"
  shows "2 powi (ilog2 q) \<le> q" and "q < 2 powi (ilog2 q + 1)"
  using assms ilog2_ge1 [of q] ilog2_lt1 [of q] by (cases "1 \<le> q"; simp)+

lemma ilog2_less:
  assumes "0 < q" "q < 2 powi k"
  shows "ilog2 q < k"
proof (rule ccontr)
  assume "\<not> ilog2 q < k"
  then have "k \<le> ilog2 q" by simp
  then have "(2::rat) powi k \<le> 2 powi (ilog2 q)" by (intro power_int_increasing) simp_all
  with ilog2_bounds(1) [OF assms(1)] assms(2) show False by simp
qed

lemma to_double_err:
  assumes "q \<noteq> 0"
  shows "\<bar>to_double q - q\<bar> \<le> 2 powi (ilog2 \<bar>q\<bar> - 53)"
proof -
  define u :: rat where "u = 2 powi (ilog2 \<bar>q\<bar> - 52)"
  have u: "0 < u" by (simp add: u_def zero_less_power_int)
  have "to_double q - q = (of_int (round_half_even (q / u)) - q / u) * u"
    using assms u by (simp add: to_double_def u_def [symmetric] Let_def field_simps)
  then have "\<bar>to_double q - q\<bar> = \<bar>of_int (round_half_even (q / u)) - q / u\<bar> * u"
    using u by (simp add: abs_mult)
  also have "\<dots> \<le> 1 / 2 * u" using rhe_err [of "q / u"] u by (intro mult_right_mono) simp_all
  also have "\<dots> = 2 powi (ilog2 \<bar>q\<bar> - 53)"
  proof -
    have "(2::rat) powi ((ilog2 \<bar>q\<bar> - 53) + 1) = 2 powi (ilog2 \<bar>q\<bar> - 53) * 2"
      by (rule power_int_add_1) simp
    then show ?thesis unfolding u_def by simp
  qed
  finally show ?thesis .
qed


lemma to_double_int:
  assumes "\<bar>n\<bar> < 2 ^ 53"
  shows "to_double (of_int n) = of_int n"
proof (cases "n = 0")
  case True
  then show ?thesis by (simp add: to_double_def)
next
  case False
  define e where "e = ilog2 \<bar>of_int n\<bar> - 52"
  have pos: "(0::rat) < \<bar>of_int n\<bar>" using False by simp
  have "\<bar>of_int n :: rat\<bar> < 2 powi 53"
  proof -
    have "(of_int \<bar>n\<bar> :: rat) < of_int (2 ^ 53)" using assms by (simp only: of_int_less_iff)
    then show ?thesis by simp
  qed
  from ilog2_less [OF pos this] have e: "e \<le> 0" by (simp add: e_def)
  have "(2::rat) powi e = 1 / 2 ^ nat (- e)"
  proof -
    have "(2::rat) powi (- (- e)) = 1 / 2 powi (- e)" by (rule power_int_minus_divide)
    then show ?thesis using e by (simp add: power_int_nonneg_exp)
  qed
  then have "of_int n / (2::rat) powi e = of_int (n * 2 ^ nat (- e))" by simp
  then have "round_half_even (of_int n / 2 powi e) = n * 2 ^ nat (- e)"
    by (simp only: rhe_int)
  then have "to_double (of_int n) = of_int (n * 2 ^ nat (- e)) * 2 powi e"
    using False by (simp add: to_double_def e_def [symmetric] Let_def)
  also have "\<dots> = of_int n" using \<open>(2::rat) powi e = 1 / 2 ^ nat (- e)\<close> by simp
  finally show ?thesis .
qed


lemma rhe_neg: "round_half_even (- x) = - round_half_even x"
proof (cases "x = of_int \<lfloor>x\<rfloor>")
  case True
  then obtain n where "x = of_int n" ..
  then have "- x = of_int (- n)" by simp
  then have "round_half_even (- x) = - n" by (simp only: rhe_int)
  with \<open>x = of_int n\<close> show ?thesis by simp
next
  case False
  define f where "f = \<lfloor>x\<rfloor>"
  define d where "d = x - of_int f"
  have "of_int f < x" using False of_int_floor_le [of x] unfolding f_def by linarith
  then have d: "0 < d" "d < 1" unfolding d_def f_def by linarith+
  have c: "\<lceil>x\<rceil> = f + 1" using \<open>of_int f < x\<close> unfolding f_def by linarith
  have "\<lceil>x\<rceil> = - \<lfloor>- x\<rfloor>" by (rule ceiling_def)
  with c have fl: "\<lfloor>- x\<rfloor> = - f - 1" by linarith
  have 1: "round_half_even x =
    (if d < 1 / 2 then f else if 1 / 2 < d then f + 1 else if even f then f else f + 1)"
    by (simp add: round_half_even_def f_def d_def Let_def)
  have "- x - of_int (- f - 1) = 1 - d" by (simp add: d_def)
  then have 2: "round_half_even (- x) =
    (if 1 - d < 1 / 2 then - f - 1 else if 1 / 2 < 1 - d then - f
     else if even (- f - 1) then - f - 1 else - f)"
    by (simp add: round_half_even_def fl Let_def)
  show ?thesis unfolding 1 2 using d by auto
qed

lemma to_double_neg: "to_double (- q) = - to_double q"
  by (simp add: to_double_def Let_def rhe_neg)



lemma seconds_nonneg:
  assumes "0 \<le> us" "us < 2 ^ 53"
  shows "0 \<le> to_double (of_int us / 1000000)"
    and "\<lfloor>to_double (of_int us / 1000000)\<rfloor> = us div 1000000"
proof -
  define n where "n = us div 1000000"
  define r where "r = us mod 1000000"
  define q :: rat where "q = of_int us / 1000000"
  have us: "us = n * 1000000 + r" by (simp add: n_def r_def)
  have r: "0 \<le> r" "r < 1000000" by (simp_all add: r_def)
  have n: "0 \<le> n" using assms(1) by (simp add: n_def pos_imp_zdiv_nonneg_iff)
  have q: "q = of_int n + of_int r / 1000000" by (simp add: q_def us)
  have "0 \<le> to_double q \<and> \<lfloor>to_double q\<rfloor> = n"
  proof (cases "r = 0")
    case True
    have "\<bar>n\<bar> < 2 ^ 53" using n assms(2) us r by simp
    then have "to_double (of_int n) = of_int n" by (rule to_double_int)
    then show ?thesis using True q n by simp
  next
    case False
    then have r1: "1 \<le> r" using r by simp
    have lo: "of_int n + 1 / 1000000 \<le> q"
    proof -
      have "(1::rat) \<le> of_int r" using r1 by simp
      then show ?thesis by (simp add: q)
    qed
    have hi: "q \<le> of_int n + 1 - 1 / 1000000"
    proof -
      have "r \<le> 999999" using r by simp
      then have "(of_int r :: rat) \<le> 999999" by (metis of_int_le_iff of_int_numeral)
      then show ?thesis by (simp add: q)
    qed
    have pos: "0 < q" using lo n
    proof -
      have "(0::rat) \<le> of_int n" using n by simp
      with lo show ?thesis by linarith
    qed
    have "q < 2 powi 34"
    proof -
      have "us < 1000000 * 2 ^ 34" using assms(2) by simp
      then have "(of_int us :: rat) < of_int (1000000 * 2 ^ 34)" by (simp only: of_int_less_iff)
      then show ?thesis by (simp add: q_def)
    qed
    with pos have "ilog2 \<bar>q\<bar> < 34" by (intro ilog2_less) simp_all
    then have "(2::rat) powi (ilog2 \<bar>q\<bar> - 53) \<le> 2 powi (- 20)"
      by (intro power_int_increasing) simp_all
    also have "\<dots> = 1 / 2 ^ 20" by (simp add: power_int_minus_divide)
    finally have "\<bar>to_double q - q\<bar> \<le> 1 / 2 ^ 20"
      using to_double_err [of q] pos by simp
    then have a: "\<bar>to_double q - q\<bar> < 1 / 1000000" by simp
    have "of_int n < to_double q" using a lo by linarith
    moreover have "to_double q < of_int n + 1" using a hi by linarith
    ultimately have "\<lfloor>to_double q\<rfloor> = n" by linarith
    moreover have "0 \<le> to_double q" using \<open>of_int n < to_double q\<close> n by linarith
    ultimately show ?thesis by simp
  qed
  then show "0 \<le> to_double (of_int us / 1000000)"
    and "\<lfloor>to_double (of_int us / 1000000)\<rfloor> = us div 1000000"
    by (simp_all add: q_def n_def)
qed

lemma whole_seconds_exact:
  assumes "\<bar>us\<bar> < 2 ^ 53"
  shows "whole_seconds us = sgn us * (\<bar>us\<bar> div 1000000)"
proof (cases "0 \<le> us")
  case True
  with assms have "us < 2 ^ 53" by simp
  from seconds_nonneg [OF True this] True show ?thesis
    by (cases "us = 0") (simp_all add: whole_seconds_def total_seconds_def true_div_def py_int_def)
next
  case False
  define x where "x = to_double (of_int (- us) / 1000000)"
  from False assms have "0 \<le> - us" "- us < 2 ^ 53" by simp_all
  from seconds_nonneg [OF this] have x: "0 \<le> x" "\<lfloor>x\<rfloor> = (- us) div 1000000"
    by (simp_all add: x_def)
  have "to_double (of_int us / 1000000) = - x"
    using to_double_neg [of "of_int (- us) / 1000000"] by (simp add: x_def)
  then have "whole_seconds us = py_int (- x)"
    by (simp add: whole_seconds_def total_seconds_def true_div_def)
  also have "\<dots> = - \<lfloor>x\<rfloor>"
    using x(1) by (cases "x = 0") (simp_all add: py_int_def ceiling_def)
  finally show ?thesis using x(2) False by simp
qed




subsection \<open>The order of strings, and \<^verbatim>\<open>min\<close> on string keys\<close>

lemma str_lt_irrefl: "\<not> str_lt a a"
  by (induction a) simp_all

lemma str_lt_trans: "str_lt a b \<Longrightarrow> str_lt b c \<Longrightarrow> str_lt a c"
proof (induction a b arbitrary: c rule: str_lt.induct)
  case 1
  then show ?case by simp
next
  case (2 y ys)
  then show ?case by (cases c) simp_all
next
  case (3 x xs)
  then show ?case by simp
next
  case (4 x xs y ys)
  show ?case
  proof (cases c)
    case Nil
    with 4 show ?thesis by simp
  next
    case (Cons z zs)
    with 4 show ?thesis by (auto split: if_splits)
  qed
qed

lemma str_lt_total: "\<not> str_lt a b \<Longrightarrow> \<not> str_lt b a \<Longrightarrow> a = b"
proof (induction a b rule: str_lt.induct)
  case (4 x xs y ys)
  show ?case
  proof (cases "x = y")
    case True
    with 4 show ?thesis by simp
  next
    case False
    then have "(of_char x :: nat) \<noteq> of_char y" by simp
    with 4 False show ?thesis by simp
  qed
qed simp_all


lemma filter_e_total:
  "\<forall>x \<in> set xs. p x = Inr (q x) \<Longrightarrow> filter_e p xs = Inr (filter q xs)"
  by (induction xs) simp_all

lemma min_loop_str:
  assumes "\<forall>x \<in> set xs. key x = Inr (JStr (ks x))"
  shows "\<exists>b \<in> set (best # xs). min_loop key best (JStr (ks best)) xs = Inr b
           \<and> (\<forall>x \<in> set (best # xs). \<not> str_lt (ks x) (ks b))"
  using assms
proof (induction xs arbitrary: best)
  case Nil
  then show ?case by (simp add: str_lt_irrefl)
next
  case (Cons x xs)
  have kx: "key x = Inr (JStr (ks x))" using Cons.prems by simp
  have rest: "\<forall>y \<in> set xs. key y = Inr (JStr (ks y))" using Cons.prems by simp
  show ?case
  proof (cases "str_lt (ks x) (ks best)")
    case True
    from Cons.IH [OF rest, of x] obtain b where
      b: "b \<in> set (x # xs)" "min_loop key x (JStr (ks x)) xs = Inr b"
         "\<forall>y \<in> set (x # xs). \<not> str_lt (ks y) (ks b)"
      by blast
    have "\<not> str_lt (ks best) (ks b)"
    proof
      assume "str_lt (ks best) (ks b)"
      with True have "str_lt (ks x) (ks b)" by (rule str_lt_trans)
      with b(3) show False by simp
    qed
    moreover have "min_loop key best (JStr (ks best)) (x # xs) = Inr b"
      using True kx b(2) by simp
    ultimately show ?thesis using b(1,3) by simp
  next
    case False
    from Cons.IH [OF rest, of best] obtain b where
      b: "b \<in> set (best # xs)" "min_loop key best (JStr (ks best)) xs = Inr b"
         "\<forall>y \<in> set (best # xs). \<not> str_lt (ks y) (ks b)"
      by blast
    have nb: "\<not> str_lt (ks best) (ks b)" using b(3) by simp
    have "\<not> str_lt (ks x) (ks b)"
    proof
      assume xb: "str_lt (ks x) (ks b)"
      show False
      proof (cases "str_lt (ks b) (ks best)")
        case True
        with xb have "str_lt (ks x) (ks best)" by (rule str_lt_trans)
        with False show False by simp
      next
        case nbb: False
        with nb have "ks best = ks b" by (rule str_lt_total)
        with xb False show False by simp
      qed
    qed
    moreover have "min_loop key best (JStr (ks best)) (x # xs) = Inr b"
      using False kx b(2) by simp
    ultimately show ?thesis using b(1,3) by auto
  qed
qed

lemma py_min_str:
  assumes "\<forall>x \<in> set xs. key x = Inr (JStr (ks x))" "xs \<noteq> []"
  shows "\<exists>b \<in> set xs. py_min key xs = Inr b \<and> (\<forall>x \<in> set xs. \<not> str_lt (ks x) (ks b))"
proof (cases xs)
  case Nil
  with assms show ?thesis by simp
next
  case (Cons x rest)
  have "\<forall>y \<in> set rest. key y = Inr (JStr (ks y))" using assms Cons by simp
  from min_loop_str [OF this, of x] obtain b where
    "b \<in> set (x # rest)" "min_loop key x (JStr (ks x)) rest = Inr b"
    "\<forall>y \<in> set (x # rest). \<not> str_lt (ks y) (ks b)"
    by blast
  moreover have "key x = Inr (JStr (ks x))" using assms Cons by simp
  ultimately show ?thesis using Cons by (auto simp: py_min_def)
qed

subsection \<open>The bot-closure flag\<close>

text \<open>
  C10, as stated, fails: with \<^verbatim>\<open>{"closed_by": {"username": "", "login": "vue-bot"}}\<close> the
  \<^verbatim>\<open>username\<close> field is present and is no bot name, yet \<^verbatim>\<open>detect_bot_close\<close> returns
  \<^verbatim>\<open>True\<close>, because an empty \<^verbatim>\<open>username\<close> is false and \<^verbatim>\<open>or\<close> moves on to \<^verbatim>\<open>login\<close>.
\<close>

theorem detect_bot_close_falsy_username:
  "detect_bot_close
     (JObj [(''closed_by'', JObj [(''username'', JStr ''''), (''login'', JStr ''vue-bot'')])])
   \<noteq> Inr (claimed_bot_close
     (JObj [(''closed_by'', JObj [(''username'', JStr ''''), (''login'', JStr ''vue-bot'')])]))"
  by (simp add: detect_bot_close_def py_get0_def str_strip_def str_lower_def py_strip_def
      py_lower_def lower_char_def ws_trail_def ascii_space_def claimed_bot_close_def bot_name_def)

text \<open>
  C10, amended: \<^verbatim>\<open>detect_bot_close\<close> never raises, and returns \<^verbatim>\<open>True\<close> exactly when the
  input is an object whose \<^verbatim>\<open>closed_by\<close> is an object in which \<^verbatim>\<open>username\<close>, or
  \<^verbatim>\<open>login\<close> when \<^verbatim>\<open>username\<close> is absent or false (null, \<^verbatim>\<open>false\<close>, zero, empty), is a
  string that stripped and lowered is \<^verbatim>\<open>stale[bot]\<close> or \<^verbatim>\<open>vue-bot\<close>; it returns
  \<^verbatim>\<open>False\<close> on every other input.
\<close>

theorem detect_bot_close_total: "detect_bot_close issue = Inr (is_bot_close issue)"
proof (cases issue)
  case (JObj kvs)
  show ?thesis
  proof (cases "map_of kvs ''closed_by''")
    case None
    with JObj show ?thesis
      by (simp add: detect_bot_close_def py_get0_def is_bot_close_def)
  next
    case (Some c)
    show ?thesis
    proof (cases c)
      case (JObj cb)
      then show ?thesis using Some \<open>issue = JObj kvs\<close>
        by (cases "name_used cb")
           (auto simp: detect_bot_close_def py_get0_def is_bot_close_def name_used_def
                  str_strip_def str_lower_def split: option.splits if_splits)
    qed (use Some \<open>issue = JObj kvs\<close> in
          \<open>simp_all add: detect_bot_close_def py_get0_def is_bot_close_def\<close>)
  qed
qed (simp_all add: detect_bot_close_def is_bot_close_def)

subsection \<open>Issues and comments as GitHub sends them\<close>

lemma parse_timestamp_utc:
  "utc_of fromiso v = Some t \<Longrightarrow> parse_timestamp fromiso v = Inr (Some (Aware t))"
  by (cases v)
     (auto simp: utc_of_def parse_timestamp_def split: if_splits sum.splits datetime.splits)

lemma time_diff_utc:
  "utc_of fromiso a = Some ta \<Longrightarrow> utc_of fromiso b = Some tb \<Longrightarrow>
   calculate_time_diff fromiso a b = Inr (Some (whole_seconds (tb - ta)))"
  by (simp add: calculate_time_diff_def parse_timestamp_utc)

lemma shaped_fields:
  assumes "github_shaped fromiso c"
  shows "user_login c = Inr (author c)"
    and "py_get0 c ''created_at'' = Inr (JStr (created c))"
    and "created_key c = Inr (JStr (created c))"
    and "utc_of fromiso (JStr (created c)) = instant fromiso c"
    and "\<exists>t. instant fromiso c = Some t"
    and "created c \<noteq> []"
proof -
  from assms obtain t where t: "instant fromiso c = Some t"
    by (auto simp: github_shaped_def)
  then obtain kvs v where c: "c = JObj kvs" and v: "map_of kvs ''created_at'' = Some v"
    and u: "utc_of fromiso v = Some t"
    by (cases c) (auto simp: instant_def field_def split: option.splits)
  from u obtain s where s: "v = JStr s" "s \<noteq> []"
    by (cases v) (auto simp: utc_of_def split: if_splits)
  have cr: "created c = s" using c v s by (simp add: created_def field_def)
  show "user_login c = Inr (author c)"
  proof (cases "map_of kvs ''user''")
    case None
    then show ?thesis using c by (simp add: user_login_def author_def field_def py_get0_def)
  next
    case (Some usr)
    with assms c obtain us where "usr = JObj us"
      by (cases usr) (auto simp: github_shaped_def field_def)
    with Some c show ?thesis
      by (simp add: user_login_def author_def field_def py_get0_def split: option.splits)
  qed
  show "py_get0 c ''created_at'' = Inr (JStr (created c))"
    using c v s cr by (simp add: py_get0_def)
  show "created_key c = Inr (JStr (created c))"
    using c v s cr by (simp add: created_key_def)
  show "utc_of fromiso (JStr (created c)) = instant fromiso c"
    using c v s cr by (simp add: instant_def field_def)
  show "\<exists>t. instant fromiso c = Some t" using t by simp
  show "created c \<noteq> []" using cr s by simp
qed

lemma shaped_author_eq:
  assumes "github_shaped fromiso c"
  shows "py_eq (author c) x \<longleftrightarrow> author c = x"
proof -
  from assms have "author c = JNull \<or> is_str (author c)" by (simp add: github_shaped_def)
  then show ?thesis by (cases "author c") auto
qed

text \<open>Unfolding \<open>fromisoformat\<close> on a concrete string.\<close>

lemmas iso_defs = fromisoformat_def replace_Z_def iso_date_def iso_clock_def iso_fraction_def
  iso_offset_def no_sign_def digit_def days_in_month_def days_from_civil_def Let_def

subsection \<open>Missing timestamps\<close>

text \<open>
  C6: a missing timestamp is to give an absent metric, never an exception. A comment (or
  a \<^verbatim>\<open>closed\<close> event) whose \<^verbatim>\<open>created_at\<close> is null, beside another one: the key of
  \<^verbatim>\<open>min\<close> is \<^verbatim>\<open>c.get("created_at", "")\<close>, whose default covers the absent key only, so
  that \<^verbatim>\<open>None\<close> is compared with a string and \<^verbatim>\<open>calculate_timestamps\<close> and
  \<^verbatim>\<open>calculate_reopen_metrics\<close> raise \<^verbatim>\<open>TypeError\<close>, whatever \<open>fromiso\<close> is.
\<close>

theorem null_created_at_raises:
  "calculate_timestamps fromiso
     (JObj [(''created_at'', JStr ''2024-01-01T00:00:00Z'')])
     [JObj [(''created_at'', JNull)],
      JObj [(''created_at'', JStr ''2024-01-02T00:00:00Z'')]]
   = Inl TypeError
   \<and> calculate_reopen_metrics fromiso
     (JObj [(''state'', JStr ''closed''), (''created_at'', JStr ''2024-01-01T00:00:00Z''),
            (''closed_at'', JStr ''2024-01-03T00:00:00Z'')])
     [JObj [(''event'', JStr ''closed''), (''created_at'', JNull)],
      JObj [(''event'', JStr ''reopened''), (''created_at'', JStr ''2024-01-02T00:00:00Z'')],
      JObj [(''event'', JStr ''closed''), (''created_at'', JStr ''2024-01-03T00:00:00Z'')]]
   = Inl TypeError"
  by (simp add: calculate_timestamps_def time_to_close_def time_to_first_comment_def
      calculate_reopen_metrics_def events_of_kind_def py_get0_def py_min_def created_key_def)

subsection \<open>Time to first response\<close>

lemma time_to_close_ok:
  assumes "github_shaped fromiso issue" "closed_at_ok fromiso issue"
  shows "\<exists>closed r. py_get0 issue ''closed_at'' = Inr closed
           \<and> time_to_close fromiso (JStr (created issue)) closed = Inr r"
proof -
  from shaped_fields(4,5) [OF assms(1)] obtain t0 where
    t0: "utc_of fromiso (JStr (created issue)) = Some t0" by auto
  from shaped_fields(2) [OF assms(1)] obtain kvs where i: "issue = JObj kvs"
    by (cases issue) (auto simp: py_get0_def)
  define closed where "closed = (case map_of kvs ''closed_at'' of Some v \<Rightarrow> v | None \<Rightarrow> JNull)"
  have g: "py_get0 issue ''closed_at'' = Inr closed" by (simp add: i py_get0_def closed_def)
  have c: "closed = JNull \<or> utc_of fromiso closed \<noteq> None"
    using assms(2) by (auto simp: closed_at_ok_def field_def i closed_def split: option.splits)
  from c have "\<exists>r. time_to_close fromiso (JStr (created issue)) closed = Inr r"
  proof
    assume "closed = JNull"
    then show ?thesis by (simp add: time_to_close_def)
  next
    assume "utc_of fromiso closed \<noteq> None"
    then obtain t where "utc_of fromiso closed = Some t" by auto
    from time_diff_utc [OF t0 this] show ?thesis by (simp add: time_to_close_def)
  qed
  with g show ?thesis by blast
qed

lemma time_to_first_comment_ok:
  assumes "github_shaped fromiso issue" "\<forall>c\<in>set comments. github_shaped fromiso c"
  shows "\<exists>r. time_to_first_comment fromiso (JStr (created issue)) comments = Inr r"
proof (cases "comments = []")
  case True
  then show ?thesis by (simp add: time_to_first_comment_def)
next
  case False
  from shaped_fields(4,5) [OF assms(1)] obtain t0 where
    t0: "utc_of fromiso (JStr (created issue)) = Some t0" by auto
  have "\<forall>c\<in>set comments. created_key c = Inr (JStr (created c))"
    using assms(2) shaped_fields(3) by blast
  from py_min_str [OF this False] obtain b where
    b: "b \<in> set comments" "py_min created_key comments = Inr b" by blast
  then have wb: "github_shaped fromiso b" using assms(2) by simp
  from shaped_fields(4,5) [OF wb] obtain t where
    t: "utc_of fromiso (JStr (created b)) = Some t" by auto
  show ?thesis
    using b(2) shaped_fields(2) [OF wb] time_diff_utc [OF t0 t] False
    by (simp add: time_to_first_comment_def)
qed

lemma time_to_first_response_ok:
  assumes wi: "github_shaped fromiso issue"
    and wc: "\<forall>c\<in>set comments. github_shaped fromiso c \<and> \<bar>elapsed fromiso issue c\<bar> < 2 ^ 53"
  shows "\<exists>r. time_to_first_response fromiso issue (JStr (created issue)) comments = Inr r
           \<and> (responses issue comments = [] \<longrightarrow> r = None)
           \<and> (responses issue comments \<noteq> [] \<longrightarrow>
                (\<exists>c\<in>set (responses issue comments).
                   r = Some (seconds_of (elapsed fromiso issue c))
                   \<and> (\<forall>c'\<in>set (responses issue comments). \<not> str_lt (created c') (created c))))"
proof -
  have f: "filter_e (\<lambda>c. ebind (user_login c) (\<lambda>l. Inr (\<not> py_eq l (author issue)))) comments
           = Inr (responses issue comments)"
    unfolding responses_def
    by (rule filter_e_total) (use wc shaped_fields(1) shaped_author_eq in auto)
  show ?thesis
  proof (cases "responses issue comments = []")
    case True
    have "time_to_first_response fromiso issue (JStr (created issue)) comments = Inr None"
      using True f shaped_fields(1) [OF wi] by (simp add: time_to_first_response_def)
    with True show ?thesis by simp
  next
    case False
    then have ne: "comments \<noteq> []" by (auto simp: responses_def)
    from shaped_fields(4,5) [OF wi] obtain t0 where
      t0: "utc_of fromiso (JStr (created issue)) = Some t0"
      and s0: "instant fromiso issue = Some t0" by auto
    have wo: "\<forall>c\<in>set (responses issue comments).
                github_shaped fromiso c \<and> \<bar>elapsed fromiso issue c\<bar> < 2 ^ 53"
      using wc by (simp add: responses_def)
    then have "\<forall>c\<in>set (responses issue comments). created_key c = Inr (JStr (created c))"
      using shaped_fields(3) by blast
    from py_min_str [OF this False] obtain b where
      b: "b \<in> set (responses issue comments)"
         "py_min created_key (responses issue comments) = Inr b"
         "\<forall>x\<in>set (responses issue comments). \<not> str_lt (created x) (created b)" by blast
    have wb: "github_shaped fromiso b" and bb: "\<bar>elapsed fromiso issue b\<bar> < 2 ^ 53"
      using b(1) wo by simp_all
    from shaped_fields(4,5) [OF wb] obtain t where
      t: "utc_of fromiso (JStr (created b)) = Some t"
      and sb: "instant fromiso b = Some t" by auto
    have e: "elapsed fromiso issue b = t - t0" using s0 sb by (simp add: elapsed_def)
    have "whole_seconds (t - t0) = seconds_of (t - t0)"
      unfolding seconds_of_def by (rule whole_seconds_exact) (use bb e in simp)
    then have "time_to_first_response fromiso issue (JStr (created issue)) comments
           = Inr (Some (seconds_of (elapsed fromiso issue b)))"
      using False ne f b(2) shaped_fields(1) [OF wi] shaped_fields(2) [OF wb]
        shaped_fields(6) [OF wi] time_diff_utc [OF t0 t] e
      by (simp add: time_to_first_response_def)
    with False b(1,3) show ?thesis by blast
  qed
qed

lemma seconds_of_mono: "a \<le> b \<Longrightarrow> seconds_of a \<le> seconds_of b"
proof -
  assume ab: "a \<le> b"
  have pos: "seconds_of x = x div 1000000" if "0 \<le> x" for x
    using that by (cases "x = 0") (simp_all add: seconds_of_def)
  have neg: "seconds_of x = - ((- x) div 1000000)" if "x < 0" for x
    using that by (simp add: seconds_of_def)
  consider "0 \<le> a" | "a < 0" "0 \<le> b" | "b < 0" using ab by linarith
  then show ?thesis
  proof cases
    case 1
    then have "0 \<le> b" using ab by simp
    with 1 ab show ?thesis by (simp add: pos zdiv_mono1)
  next
    case 2
    have "0 \<le> (- a) div 1000000" using 2(1) by (simp add: pos_imp_zdiv_nonneg_iff)
    moreover have "0 \<le> b div 1000000" using 2(2) by (simp add: pos_imp_zdiv_nonneg_iff)
    ultimately show ?thesis using 2 by (simp add: pos neg)
  next
    case 3
    then have "a < 0" using ab by simp
    have "(- b) div 1000000 \<le> (- a) div 1000000" using ab by (intro zdiv_mono1) simp_all
    with 3 \<open>a < 0\<close> show ?thesis by (simp add: neg)
  qed
qed

lemma earliest_of_least:
  assumes c: "c \<in> set cs"
    and least: "\<forall>c'\<in>set cs. \<not> str_lt (created c') (created c)"
    and sh: "\<forall>c'\<in>set cs. github_shaped fromiso c'"
    and agree: "order_agrees fromiso issue cs"
  shows "Min (set (map (elapsed fromiso issue) cs)) = elapsed fromiso issue c"
proof (rule Min_eqI)
  show "finite (set (map (elapsed fromiso issue) cs))" by simp
  show "elapsed fromiso issue c \<in> set (map (elapsed fromiso issue) cs)" using c by simp
  fix y assume "y \<in> set (map (elapsed fromiso issue) cs)"
  then obtain c' where c': "c' \<in> set cs" "y = elapsed fromiso issue c'" by auto
  show "elapsed fromiso issue c \<le> y"
  proof (cases "str_lt (created c) (created c')")
    case True
    with agree c c' show ?thesis by (auto simp: order_agrees_def list_all_iff)
  next
    case False
    moreover have "\<not> str_lt (created c') (created c)" using least c'(1) by simp
    ultimately have eq: "created c = created c'" by (rule str_lt_total)
    have "instant fromiso c = instant fromiso c'"
      using shaped_fields(4) [of fromiso c] shaped_fields(4) [of fromiso c'] sh c c'(1) eq
      by simp
    then show ?thesis using c'(2) by (simp add: elapsed_def)
  qed
qed

text \<open>
  C9, as stated, fails: the issue is created at midnight UTC; bob answers at
  \<^verbatim>\<open>2024-01-02T05:00:00Z\<close>, 104400 seconds later, and carol at
  \<^verbatim>\<open>2024-01-02T10:00:00+10:00\<close>, which is midnight UTC, 86400 seconds later. Carol's is
  the earliest answer, but \<^verbatim>\<open>min\<close> compares the \<^verbatim>\<open>created_at\<close> strings, of which bob's
  is the smaller, and the metric is 104400.
\<close>

theorem first_response_not_earliest:
  "map_sum id time_to_first_response_seconds
     (calculate_timestamps fromisoformat
        (JObj [(''created_at'', JStr ''2024-01-01T00:00:00Z''),
               (''user'', JObj [(''login'', JStr ''alice'')])])
        [JObj [(''created_at'', JStr ''2024-01-02T05:00:00Z''),
               (''user'', JObj [(''login'', JStr ''bob'')])],
         JObj [(''created_at'', JStr ''2024-01-02T10:00:00+10:00''),
               (''user'', JObj [(''login'', JStr ''carol'')])]])
   = Inr (Some 104400)
   \<and> claimed_first_response fromisoformat
        (JObj [(''created_at'', JStr ''2024-01-01T00:00:00Z''),
               (''user'', JObj [(''login'', JStr ''alice'')])])
        [JObj [(''created_at'', JStr ''2024-01-02T05:00:00Z''),
               (''user'', JObj [(''login'', JStr ''bob'')])],
         JObj [(''created_at'', JStr ''2024-01-02T10:00:00+10:00''),
               (''user'', JObj [(''login'', JStr ''carol'')])]]
   = Some 86400"
proof -
  have z: "fromisoformat (replace_Z ''2024-01-01T00:00:00Z'') = Inr (Aware 1704067200000000)"
    by (simp add: iso_defs)
  have b: "fromisoformat (replace_Z ''2024-01-02T05:00:00Z'') = Inr (Aware 1704171600000000)"
    by (simp add: iso_defs)
  have c: "fromisoformat (replace_Z ''2024-01-02T10:00:00+10:00'')
           = Inr (Aware 1704153600000000)"
    by (simp add: iso_defs)
  have w: "whole_seconds 104400000000 = 104400"
    by (simp add: whole_seconds_exact)
  show ?thesis
    by (simp add: calculate_timestamps_def time_to_close_def time_to_first_comment_def
        time_to_first_response_def py_min_def created_key_def user_login_def py_get0_def
        calculate_time_diff_def parse_timestamp_def z b c w
        claimed_first_response_def responses_def author_def field_def elapsed_def
        instant_def utc_of_def seconds_of_def)
qed

text \<open>
  C9, amended: for an issue and comments as GitHub sends them (the user absent or an
  object, the login absent, null or a string, \<^verbatim>\<open>created_at\<close> a timestamp that
  \<open>fromiso\<close> reads as an aware \<^verbatim>\<open>datetime\<close>, \<^verbatim>\<open>closed_at\<close> absent, null or such a
  timestamp), each comment less than \<open>2\<^sup>5\<^sup>3\<close> microseconds (285 years) from the
  creation of the issue, \<^verbatim>\<open>calculate_timestamps\<close> returns, and
  \<^verbatim>\<open>time_to_first_response_seconds\<close> is computed over the comments whose author differs
  from the author of the issue: it is absent when there is none, and otherwise the whole
  seconds from the creation of the issue to the creation of the one of them whose
  \<^verbatim>\<open>created_at\<close> string is the least in the order of code points. That is the earliest
  of them, as C9 has it, whenever the order of these strings is the order of the
  instants they denote.
\<close>

theorem first_response_least_created:
  assumes "github_shaped fromiso issue" and "closed_at_ok fromiso issue"
    and "\<forall>c\<in>set comments. github_shaped fromiso c \<and> \<bar>elapsed fromiso issue c\<bar> < 2 ^ 53"
  shows "\<exists>m. calculate_timestamps fromiso issue comments = Inr m
    \<and> (responses issue comments = [] \<longrightarrow> time_to_first_response_seconds m = None)
    \<and> (responses issue comments \<noteq> [] \<longrightarrow>
         (\<exists>c\<in>set (responses issue comments).
            time_to_first_response_seconds m = Some (seconds_of (elapsed fromiso issue c))
            \<and> (\<forall>c'\<in>set (responses issue comments). \<not> str_lt (created c') (created c))))
    \<and> (order_agrees fromiso issue (responses issue comments) \<longrightarrow>
         time_to_first_response_seconds m = claimed_first_response fromiso issue comments)"
proof -
  have sh: "\<forall>c\<in>set comments. github_shaped fromiso c" using assms(3) by simp
  from time_to_close_ok [OF assms(1,2)] obtain closed r1 where
    c: "py_get0 issue ''closed_at'' = Inr closed"
       "time_to_close fromiso (JStr (created issue)) closed = Inr r1" by blast
  from time_to_first_comment_ok [OF assms(1) sh] obtain r2 where
    fc: "time_to_first_comment fromiso (JStr (created issue)) comments = Inr r2" by blast
  from time_to_first_response_ok [OF assms(1,3)] obtain r3 where
    fr: "time_to_first_response fromiso issue (JStr (created issue)) comments = Inr r3"
    and none: "responses issue comments = [] \<longrightarrow> r3 = None"
    and some: "responses issue comments \<noteq> [] \<longrightarrow>
          (\<exists>c\<in>set (responses issue comments).
             r3 = Some (seconds_of (elapsed fromiso issue c))
             \<and> (\<forall>c'\<in>set (responses issue comments). \<not> str_lt (created c') (created c)))"
    by blast
  have m: "calculate_timestamps fromiso issue comments
        = Inr \<lparr>time_to_close_seconds = fst r1, time_to_first_comment_seconds = r2,
               time_to_first_response_seconds = r3, time_open_days = snd r1\<rparr>"
    using c fc fr shaped_fields(2) [OF assms(1)] by (simp add: calculate_timestamps_def)
  have "r3 = claimed_first_response fromiso issue comments"
    if agree: "order_agrees fromiso issue (responses issue comments)"
  proof (cases "responses issue comments")
    case Nil
    with none show ?thesis by (simp add: claimed_first_response_def)
  next
    case (Cons x xs)
    with some obtain b where b: "b \<in> set (responses issue comments)"
      "r3 = Some (seconds_of (elapsed fromiso issue b))"
      "\<forall>c'\<in>set (responses issue comments). \<not> str_lt (created c') (created b)" by auto
    have "\<forall>c'\<in>set (responses issue comments). github_shaped fromiso c'"
      using sh by (simp add: responses_def)
    from earliest_of_least [OF b(1,3) this agree]
    show ?thesis using b(2) Cons by (simp add: claimed_first_response_def)
  qed
  with m none some show ?thesis by simp
qed

text \<open>
  On the example of the specification (the author is alice, alice comments at the
  creation time and bob 100 seconds later) the result is 100, not 0; and with alice
  commenting after 50 seconds, carol after 200 and bob after 100, in this order, it is
  100 again.
\<close>

theorem first_response_alice_bob:
  "github_shaped fromisoformat alice_issue \<and> closed_at_ok fromisoformat alice_issue
   \<and> github_shaped fromisoformat (comment_by ''alice'' ''2024-01-01T00:00:00Z'')
   \<and> \<bar>elapsed fromisoformat alice_issue (comment_by ''alice'' ''2024-01-01T00:00:00Z'')\<bar> < 2 ^ 53
   \<and> github_shaped fromisoformat (comment_by ''alice'' ''2024-01-01T00:00:50Z'')
   \<and> \<bar>elapsed fromisoformat alice_issue (comment_by ''alice'' ''2024-01-01T00:00:50Z'')\<bar> < 2 ^ 53
   \<and> github_shaped fromisoformat (comment_by ''bob'' ''2024-01-01T00:01:40Z'')
   \<and> \<bar>elapsed fromisoformat alice_issue (comment_by ''bob'' ''2024-01-01T00:01:40Z'')\<bar> < 2 ^ 53
   \<and> github_shaped fromisoformat (comment_by ''carol'' ''2024-01-01T00:03:20Z'')
   \<and> \<bar>elapsed fromisoformat alice_issue (comment_by ''carol'' ''2024-01-01T00:03:20Z'')\<bar> < 2 ^ 53
   \<and> map_sum id time_to_first_response_seconds
        (calculate_timestamps fromisoformat alice_issue
           [comment_by ''alice'' ''2024-01-01T00:00:00Z'',
            comment_by ''bob'' ''2024-01-01T00:01:40Z''])
      = Inr (Some 100)
   \<and> map_sum id time_to_first_response_seconds
        (calculate_timestamps fromisoformat alice_issue
           [comment_by ''alice'' ''2024-01-01T00:00:50Z'',
            comment_by ''carol'' ''2024-01-01T00:03:20Z'',
            comment_by ''bob'' ''2024-01-01T00:01:40Z''])
      = Inr (Some 100)
   \<and> map_sum id time_to_first_response_seconds
        (calculate_timestamps fromisoformat alice_issue
           [comment_by ''alice'' ''2024-01-01T00:00:50Z''])
      = Inr None"
proof -
  let ?a0 = "comment_by ''alice'' ''2024-01-01T00:00:00Z''"
  let ?a50 = "comment_by ''alice'' ''2024-01-01T00:00:50Z''"
  let ?bob = "comment_by ''bob'' ''2024-01-01T00:01:40Z''"
  let ?carol = "comment_by ''carol'' ''2024-01-01T00:03:20Z''"
  have t0: "fromisoformat (replace_Z ''2024-01-01T00:00:00Z'') = Inr (Aware 1704067200000000)"
    and t50: "fromisoformat (replace_Z ''2024-01-01T00:00:50Z'') = Inr (Aware 1704067250000000)"
    and t100: "fromisoformat (replace_Z ''2024-01-01T00:01:40Z'') = Inr (Aware 1704067300000000)"
    and t200: "fromisoformat (replace_Z ''2024-01-01T00:03:20Z'') = Inr (Aware 1704067400000000)"
    by (simp_all add: iso_defs)
  note ev = github_shaped_def closed_at_ok_def author_def field_def instant_def utc_of_def
    elapsed_def created_def alice_issue_def comment_by_def t0 t50 t100 t200
  have i: "github_shaped fromisoformat alice_issue" "closed_at_ok fromisoformat alice_issue"
    by (simp_all add: ev)
  have a0: "github_shaped fromisoformat ?a0 \<and> \<bar>elapsed fromisoformat alice_issue ?a0\<bar> < 2 ^ 53"
    by (simp add: ev)
  have a50: "github_shaped fromisoformat ?a50 \<and> \<bar>elapsed fromisoformat alice_issue ?a50\<bar> < 2 ^ 53"
    by (simp add: ev)
  have bob: "github_shaped fromisoformat ?bob \<and> \<bar>elapsed fromisoformat alice_issue ?bob\<bar> < 2 ^ 53"
    by (simp add: ev)
  have carol: "github_shaped fromisoformat ?carol
      \<and> \<bar>elapsed fromisoformat alice_issue ?carol\<bar> < 2 ^ 53"
    by (simp add: ev)
  have sb: "seconds_of (elapsed fromisoformat alice_issue ?bob) = 100"
    by (simp add: ev seconds_of_def)
  have lt: "str_lt (created ?bob) (created ?carol)" by (simp add: ev)
  have r1: "responses alice_issue [?a0, ?bob] = [?bob]"
    by (simp add: responses_def ev)
  have r2: "responses alice_issue [?a50, ?carol, ?bob] = [?carol, ?bob]"
    by (simp add: responses_def ev)
  have r3: "responses alice_issue [?a50] = []"
    by (simp add: responses_def ev)
  have h1: "\<forall>c\<in>set [?a0, ?bob].
      github_shaped fromisoformat c \<and> \<bar>elapsed fromisoformat alice_issue c\<bar> < 2 ^ 53"
    using a0 bob by simp
  have h2: "\<forall>c\<in>set [?a50, ?carol, ?bob].
      github_shaped fromisoformat c \<and> \<bar>elapsed fromisoformat alice_issue c\<bar> < 2 ^ 53"
    using a50 carol bob by simp
  have h3: "\<forall>c\<in>set [?a50].
      github_shaped fromisoformat c \<and> \<bar>elapsed fromisoformat alice_issue c\<bar> < 2 ^ 53"
    using a50 by simp
  from first_response_least_created [OF i h1] obtain m1 where
    m1: "calculate_timestamps fromisoformat alice_issue [?a0, ?bob] = Inr m1"
    and s1: "responses alice_issue [?a0, ?bob] \<noteq> [] \<longrightarrow>
      (\<exists>c\<in>set (responses alice_issue [?a0, ?bob]).
         time_to_first_response_seconds m1
           = Some (seconds_of (elapsed fromisoformat alice_issue c))
         \<and> (\<forall>c'\<in>set (responses alice_issue [?a0, ?bob]). \<not> str_lt (created c') (created c)))"
    by blast
  from s1 have v1: "time_to_first_response_seconds m1 = Some 100"
    unfolding r1 using sb by simp
  from first_response_least_created [OF i h2] obtain m2 where
    m2: "calculate_timestamps fromisoformat alice_issue [?a50, ?carol, ?bob] = Inr m2"
    and s2: "responses alice_issue [?a50, ?carol, ?bob] \<noteq> [] \<longrightarrow>
      (\<exists>c\<in>set (responses alice_issue [?a50, ?carol, ?bob]).
         time_to_first_response_seconds m2
           = Some (seconds_of (elapsed fromisoformat alice_issue c))
         \<and> (\<forall>c'\<in>set (responses alice_issue [?a50, ?carol, ?bob]).
               \<not> str_lt (created c') (created c)))"
    by blast
  from s2 have v2: "time_to_first_response_seconds m2 = Some 100"
    unfolding r2 using sb lt by auto
  from first_response_least_created [OF i h3] obtain m3 where
    m3: "calculate_timestamps fromisoformat alice_issue [?a50] = Inr m3"
    and s3: "responses alice_issue [?a50] = [] \<longrightarrow> time_to_first_response_seconds m3 = None"
    by blast
  from s3 r3 have v3: "time_to_first_response_seconds m3 = None" by simp
  show ?thesis using i a0 a50 bob carol m1 v1 m2 v2 m3 v3 by simp
qed

subsection \<open>Computations that fetch\<close>

lemma io_return_apply: "io_return x tr = Some (Inr x, tr)"
  by (simp add: io_return_def)

lemma io_pure_apply: "io_pure r tr = Some (r, tr)"
  by (simp add: io_pure_def)

lemma io_bind_return [simp]: "io_bind (io_return x) f = f x"
  by (rule ext) (simp add: io_bind_def io_return_def)

lemma io_bind_pure_Inr [simp]: "io_bind (io_pure (Inr x)) f = f x"
  by (rule ext) (simp add: io_bind_def io_pure_def)

lemma io_bind_pure_Inl [simp]: "io_bind (io_pure (Inl e)) f = io_pure (Inl e)"
  by (rule ext) (simp add: io_bind_def io_pure_def)

lemma no_closed_events: "no_closed events \<Longrightarrow> events_of_kind ''closed'' events = Inr []"
proof (induction events)
  case Nil
  then show ?case by (simp add: events_of_kind_def)
next
  case (Cons e es)
  then obtain kvs where e: "e = JObj kvs" and k: "map_of kvs ''event'' \<noteq> Some (JStr ''closed'')"
    by (cases e) (auto simp: no_closed_def field_def)
  have "\<not> py_eq (case map_of kvs ''event'' of None \<Rightarrow> JNull | Some v \<Rightarrow> v) (JStr ''closed'')"
    using k by (cases "map_of kvs ''event''"; cases "the (map_of kvs ''event'')") auto
  moreover have "events_of_kind ''closed'' es = Inr []" using Cons by (simp add: no_closed_def)
  ultimately show ?case using e by (simp add: events_of_kind_def py_get0_def)
qed

lemma parses_parse: "parses fromiso v \<Longrightarrow> \<exists>d. parse_timestamp fromiso v = Inr d"
proof (cases v)
  case (JStr s)
  assume "parses fromiso v"
  then show ?thesis using JStr
    by (cases "fromiso (replace_Z s)") (auto simp: parses_def parse_timestamp_def)
qed (auto simp: parses_def parse_timestamp_def)

subsection \<open>No close, no fetch\<close>

text \<open>
  C2, as stated, fails: the issue has a \<^verbatim>\<open>closed_at\<close> that is no timestamp and its
  timeline has no event at all. The two timestamps are parsed before the events are
  looked at, and \<^verbatim>\<open>find_closing_method\<close> raises \<^verbatim>\<open>ValueError\<close> where C2 has it return
  \<^verbatim>\<open>(None, None)\<close>.
\<close>

theorem unread_closed_at_raises:
  "no_closed []
   \<and> find_closing_method fromisoformat offline ''o'' ''r'' (JInt 1)
        (JStr ''2024-01-01T00:00:00Z'') (JStr ''tomorrow'') [] []
      = Some (Inl ValueError, [])"
  by (simp add: no_closed_def find_closing_method_def parse_timestamp_def iso_defs
      io_pure_apply)

text \<open>
  C2, amended: when \<^verbatim>\<open>closed_at\<close> is absent (or false), or the timeline holds no
  \<^verbatim>\<open>closed\<close> event, \<^verbatim>\<open>find_closing_method\<close> ends without any fetch (the requests made
  are those made before), whether it returns or raises; and it returns
  \<^verbatim>\<open>(None, None)\<close> when \<^verbatim>\<open>closed_at\<close> is absent, or when both timestamps of the issue
  are absent or read by \<open>fromiso\<close>.
\<close>

theorem no_close_no_fetch:
  assumes "\<not> truthy issue_closed_at \<or> no_closed events"
  shows "\<exists>r. find_closing_method fromiso net owner repo issue_number issue_created_at
           issue_closed_at events tr = Some (r, tr)
     \<and> (\<not> truthy issue_closed_at \<or> parses fromiso issue_created_at \<and> parses fromiso issue_closed_at
          \<longrightarrow> r = Inr (None, None))"
proof (cases "truthy issue_closed_at")
  case False
  then show ?thesis by (simp add: find_closing_method_def io_return_apply)
next
  case True
  with assms have nc: "events_of_kind ''closed'' events = Inr []" by (simp add: no_closed_events)
  show ?thesis
  proof (cases "parse_timestamp fromiso issue_created_at")
    case (Inl e)
    then have "\<not> parses fromiso issue_created_at" using parses_parse [of fromiso issue_created_at] by auto
    with True Inl show ?thesis by (simp add: find_closing_method_def io_pure_apply)
  next
    case ct: (Inr ct)
    show ?thesis
    proof (cases "parse_timestamp fromiso issue_closed_at")
      case (Inl e)
      then have "\<not> parses fromiso issue_closed_at" using parses_parse [of fromiso issue_closed_at] by auto
      with True ct Inl show ?thesis by (simp add: find_closing_method_def io_pure_apply)
    next
      case (Inr zt)
      with True ct nc show ?thesis by (simp add: find_closing_method_def io_return_apply)
    qed
  qed
qed

text \<open>
  An issue without \<^verbatim>\<open>closed_at\<close> whose timeline has a \<^verbatim>\<open>closed\<close> event, and a closed issue
  whose timeline has none.
\<close>

theorem no_close_no_fetch_examples:
  "\<not> truthy JNull
   \<and> find_closing_method fromisoformat offline ''o'' ''r'' (JInt 1)
        (JStr ''2024-01-01T00:00:00Z'') JNull
        [JObj [(''event'', JStr ''closed''), (''created_at'', JStr ''2024-01-02T00:00:00Z'')]]
        [] = Some (Inr (None, None), [])
   \<and> no_closed [JObj [(''event'', JStr ''labeled'')], JObj [(''event'', JStr ''referenced'')]]
   \<and> parses fromisoformat (JStr ''2024-01-01T00:00:00Z'')
   \<and> parses fromisoformat (JStr ''2024-01-02T00:00:00Z'')
   \<and> find_closing_method fromisoformat offline ''o'' ''r'' (JInt 1)
        (JStr ''2024-01-01T00:00:00Z'') (JStr ''2024-01-02T00:00:00Z'')
        [JObj [(''event'', JStr ''labeled'')], JObj [(''event'', JStr ''referenced'')]]
        [] = Some (Inr (None, None), [])"
proof -
  let ?closed = "[JObj [(''event'', JStr ''closed''),
                        (''created_at'', JStr ''2024-01-02T00:00:00Z'')]]"
  let ?others = "[JObj [(''event'', JStr ''labeled'')], JObj [(''event'', JStr ''referenced'')]]"
  have n: "no_closed ?others" by (simp add: no_closed_def field_def)
  have p: "parses fromisoformat (JStr ''2024-01-01T00:00:00Z'')"
    "parses fromisoformat (JStr ''2024-01-02T00:00:00Z'')"
    by (simp_all add: parses_def iso_defs)
  have "\<not> truthy JNull \<or> no_closed ?closed" by simp
  from no_close_no_fetch [OF this, of fromisoformat offline "''o''" "''r''" "JInt 1"
      "JStr ''2024-01-01T00:00:00Z''" "[]"]
  have 1: "find_closing_method fromisoformat offline ''o'' ''r'' (JInt 1)
        (JStr ''2024-01-01T00:00:00Z'') JNull ?closed [] = Some (Inr (None, None), [])"
    by auto
  have "\<not> truthy (JStr ''2024-01-02T00:00:00Z'') \<or> no_closed ?others" using n by simp
  from no_close_no_fetch [OF this, of fromisoformat offline "''o''" "''r''" "JInt 1"
      "JStr ''2024-01-01T00:00:00Z''" "[]"] p
  have 2: "find_closing_method fromisoformat offline ''o'' ''r'' (JInt 1)
        (JStr ''2024-01-01T00:00:00Z'') (JStr ''2024-01-02T00:00:00Z'') ?others []
        = Some (Inr (None, None), [])"
    by auto
  show ?thesis using n p 1 2 by simp
qed

subsection \<open>The time allowed between the merge and the close\<close>






end
